theory Spec2Isabelle
  imports Main "HOL-Library.AList"
begin

section \<open>Strings of the host language\<close>

text \<open>
  A source string is a sequence of code units; the model keeps the code units
  \<open>0 .. 255\<close> (Latin-1), one \<^typ>\<open>char\<close> each.  \<open>trim\<close> removes the white space and
  line terminators of that range from both ends, \<open>toLowerCase\<close> maps \<open>A .. Z\<close> and the
  accented capitals \<open>0xC0 .. 0xDE\<close> (without the multiplication sign \<open>0xD7\<close>) to their
  small letters.
\<close>

definition isWhiteSpace :: "char \<Rightarrow> bool" where
  "isWhiteSpace c \<longleftrightarrow>
     c \<in> set [CHR 0x09, CHR 0x0A, CHR 0x0B, CHR 0x0C, CHR 0x0D, CHR 0x20, CHR 0xA0]"

definition trim :: "string \<Rightarrow> string" where
  "trim s = rev (dropWhile isWhiteSpace (rev (dropWhile isWhiteSpace s)))"

definition toLowerChar :: "char \<Rightarrow> char" where
  "toLowerChar c =
     (let n = (of_char c :: nat)
      in if (65 \<le> n \<and> n \<le> 90) \<or> (192 \<le> n \<and> n \<le> 222 \<and> n \<noteq> 215)
         then char_of (n + 32) else c)"

definition toLowerCase :: "string \<Rightarrow> string" where
  "toLowerCase s = map toLowerChar s"

fun startsWith :: "string \<Rightarrow> string \<Rightarrow> bool" where
  "startsWith s [] = True"
| "startsWith [] (p # ps) = False"
| "startsWith (c # cs) (p # ps) = (c = p \<and> startsWith cs ps)"

text \<open>\<open>h.includes(w)\<close>: \<open>w\<close> occurs in \<open>h\<close> as a contiguous substring.\<close>

fun includesStr :: "string \<Rightarrow> string \<Rightarrow> bool" where
  "includesStr [] w = (w = [])"
| "includesStr (c # cs) w = (startsWith (c # cs) w \<or> includesStr cs w)"

text \<open>\<open>s.split(sep)\<close> for a one-character separator: never empty, \<open>''''\<close> gives \<open>['''']\<close>.\<close>

fun split :: "char \<Rightarrow> string \<Rightarrow> string list" where
  "split sep [] = [[]]"
| "split sep (c # cs) =
     (if c = sep then [] # split sep cs
      else (case split sep cs of [] \<Rightarrow> [[c]] | x # xs \<Rightarrow> (c # x) # xs))"

fun join :: "string \<Rightarrow> string list \<Rightarrow> string" where
  "join sep [] = []"
| "join sep [x] = x"
| "join sep (x # y # ys) = x @ sep @ join sep (y # ys)"

section \<open>Line tokenizer\<close>

text \<open>
  \<open>parseCSVLine\<close>: the \<open>while\<close> loop over the index \<open>i\<close> is a recursion over the
  characters not yet read, with the loop variables \<open>inQuotes\<close>, \<open>current\<close> and \<open>result\<close>.
  A quote inside quotes that is followed by a quote is an escaped quote (two characters
  are consumed); any other quote toggles \<open>inQuotes\<close>.
\<close>

fun scanLine :: "string \<Rightarrow> bool \<Rightarrow> string \<Rightarrow> string list \<Rightarrow> string list" where
  "scanLine [] inQuotes current result = result @ [trim current]"
| "scanLine (c # cs) inQuotes current result =
     (if c = CHR 0x22 then
        (if inQuotes \<and> (case cs of [] \<Rightarrow> False | d # ds \<Rightarrow> d = CHR 0x22)
         then scanLine (tl cs) inQuotes (current @ [CHR 0x22]) result
         else scanLine cs (\<not> inQuotes) current result)
      else if c = CHR '','' \<and> \<not> inQuotes
        then scanLine cs inQuotes [] (result @ [trim current])
      else scanLine cs inQuotes (current @ [c]) result)"

text \<open>
  \<open>field.replace(/^"(.*)"$/, '$1')\<close>: a field that starts and ends with a quote (two
  distinct characters) and has no line terminator in between loses both quotes; the dot
  of the regular expression does not match a line feed or a carriage return.
\<close>

definition stripQuotes :: "string \<Rightarrow> string" where
  "stripQuotes field =
     (if 2 \<le> length field \<and> hd field = CHR 0x22 \<and> last field = CHR 0x22
         \<and> (\<forall>c \<in> set (butlast (tl field)). c \<noteq> CHR 0x0A \<and> c \<noteq> CHR 0x0D)
      then butlast (tl field) else field)"

definition parseCSVLine :: "string \<Rightarrow> string list" where
  "parseCSVLine line = map stripQuotes (scanLine line False [] [])"

section \<open>Category normalizer\<close>

datatype category = Abs | Legs | Arms | Back | Shoulders | Chest | Cardio | FullBody

fun categoryName :: "category \<Rightarrow> string" where
  "categoryName Abs = ''abs''"
| "categoryName Legs = ''legs''"
| "categoryName Arms = ''arms''"
| "categoryName Back = ''back''"
| "categoryName Shoulders = ''shoulders''"
| "categoryName Chest = ''chest''"
| "categoryName Cardio = ''cardio''"
| "categoryName FullBody = ''full-body''"

text \<open>The \<open>switch (categoryRaw)\<close> of \<open>parseExercisesCSV\<close>, case labels in source order.\<close>

definition normalizeCategory :: "string \<Rightarrow> category" where
  "normalizeCategory categoryRaw =
     (if categoryRaw \<in> set [''abs'', ''abdominals'', ''core'', ''stomach''] then Abs
      else if categoryRaw \<in> set [''legs'', ''leg'', ''lower body'', ''quads'', ''hamstrings'',
                                  ''calves''] then Legs
      else if categoryRaw \<in> set [''arms'', ''arm'', ''biceps'', ''triceps'', ''forearms''] then Arms
      else if categoryRaw \<in> set [''back'', ''lats'', ''latissimus'', ''rhomboids'', ''traps'']
        then Back
      else if categoryRaw \<in> set [''shoulders'', ''shoulder'', ''delts'', ''deltoids'']
        then Shoulders
      else if categoryRaw \<in> set [''chest'', ''pecs'', ''pectorals''] then Chest
      else if categoryRaw \<in> set [''cardio'', ''cardiovascular'', ''aerobic'', ''conditioning'']
        then Cardio
      else if categoryRaw \<in> set [''full-body'', ''full body'', ''fullbody'', ''compound'',
                                  ''total body''] then FullBody
      else FullBody)"

text \<open>
  The synonym table as the specification documents it: every recognised token with its
  canonical category.
\<close>

definition synonymTable :: "(string \<times> category) list" where
  "synonymTable =
     [(''abs'', Abs), (''abdominals'', Abs), (''core'', Abs), (''stomach'', Abs),
      (''legs'', Legs), (''leg'', Legs), (''lower body'', Legs), (''quads'', Legs),
      (''hamstrings'', Legs), (''calves'', Legs),
      (''arms'', Arms), (''arm'', Arms), (''biceps'', Arms), (''triceps'', Arms),
      (''forearms'', Arms),
      (''back'', Back), (''lats'', Back), (''latissimus'', Back), (''rhomboids'', Back),
      (''traps'', Back),
      (''shoulders'', Shoulders), (''shoulder'', Shoulders), (''delts'', Shoulders),
      (''deltoids'', Shoulders),
      (''chest'', Chest), (''pecs'', Chest), (''pectorals'', Chest),
      (''cardio'', Cardio), (''cardiovascular'', Cardio), (''aerobic'', Cardio),
      (''conditioning'', Cardio),
      (''full-body'', FullBody), (''full body'', FullBody), (''fullbody'', FullBody),
      (''compound'', FullBody), (''total body'', FullBody)]"

section \<open>Header resolver\<close>

text \<open>\<open>headers.findIndex(p)\<close>: the index of the first element that satisfies \<open>p\<close>, or \<open>-1\<close>.\<close>

fun findIndexFrom :: "('a \<Rightarrow> bool) \<Rightarrow> 'a list \<Rightarrow> int \<Rightarrow> int" where
  "findIndexFrom p [] i = - 1"
| "findIndexFrom p (x # xs) i = (if p x then i else findIndexFrom p xs (i + 1))"

definition findIndex :: "('a \<Rightarrow> bool) \<Rightarrow> 'a list \<Rightarrow> int" where
  "findIndex p xs = findIndexFrom p xs 0"

text \<open>
  The semantic roles: three of the exercise schema, seven of the workout schema.
  \<open>headerMatches r\<close> is the predicate the source passes to \<open>findIndex\<close> for the role \<open>r\<close>.
\<close>

datatype role =
    ExName | ExDescription | ExCategory
  | WkDate | WkExerciseName | WkExerciseCategory | WkSetNumber | WkReps | WkSetNotes
  | WkWorkoutNotes

fun headerMatches :: "role \<Rightarrow> string \<Rightarrow> bool" where
  "headerMatches ExName h \<longleftrightarrow>
     h = ''name'' \<or> h = ''exercise'' \<or> h = ''exercise_name'' \<or> includesStr h ''name''"
| "headerMatches ExDescription h \<longleftrightarrow>
     h = ''description'' \<or> h = ''desc'' \<or> includesStr h ''description''"
| "headerMatches ExCategory h \<longleftrightarrow>
     h = ''category'' \<or> h = ''type'' \<or> h = ''muscle_group'' \<or> includesStr h ''category''"
| "headerMatches WkDate h \<longleftrightarrow> h = ''date'' \<or> includesStr h ''date''"
| "headerMatches WkExerciseName h \<longleftrightarrow>
     h = ''exercisename'' \<or> h = ''exercise_name'' \<or> h = ''exercise'' \<or>
     (includesStr h ''exercise'' \<and> includesStr h ''name'')"
| "headerMatches WkExerciseCategory h \<longleftrightarrow>
     h = ''exercisecategory'' \<or> h = ''exercise_category'' \<or>
     (includesStr h ''exercise'' \<and> includesStr h ''category'')"
| "headerMatches WkSetNumber h \<longleftrightarrow>
     h = ''setnumber'' \<or> h = ''set_number'' \<or> h = ''set'' \<or>
     (includesStr h ''set'' \<and> includesStr h ''number'')"
| "headerMatches WkReps h \<longleftrightarrow> h = ''reps'' \<or> includesStr h ''reps'' \<or> h = ''repetitions''"
| "headerMatches WkSetNotes h \<longleftrightarrow>
     h = ''setnotes'' \<or> h = ''set_notes'' \<or> (includesStr h ''set'' \<and> includesStr h ''notes'')"
| "headerMatches WkWorkoutNotes h \<longleftrightarrow>
     h = ''workoutnotes'' \<or> h = ''workout_notes'' \<or>
     (includesStr h ''workout'' \<and> includesStr h ''notes'')"

text \<open>The header row as both importers read it: every field lower-cased, then trimmed.\<close>

definition headerRow :: "string \<Rightarrow> string list" where
  "headerRow header = map (\<lambda>h. trim (toLowerCase h)) (parseCSVLine header)"

definition resolveIndex :: "role \<Rightarrow> string list \<Rightarrow> int" where
  "resolveIndex r headers = findIndex (headerMatches r) headers"

text \<open>
  The specification's reading of a role: its exact-match candidate names, and the marker
  words of its substring rule (a header passes the rule when it contains all of them).
\<close>

fun exactCandidates :: "role \<Rightarrow> string list" where
  "exactCandidates ExName = [''name'', ''exercise'', ''exercise_name'']"
| "exactCandidates ExDescription = [''description'', ''desc'']"
| "exactCandidates ExCategory = [''category'', ''type'', ''muscle_group'']"
| "exactCandidates WkDate = [''date'']"
| "exactCandidates WkExerciseName = [''exercisename'', ''exercise_name'', ''exercise'']"
| "exactCandidates WkExerciseCategory = [''exercisecategory'', ''exercise_category'']"
| "exactCandidates WkSetNumber = [''setnumber'', ''set_number'', ''set'']"
| "exactCandidates WkReps = [''reps'', ''repetitions'']"
| "exactCandidates WkSetNotes = [''setnotes'', ''set_notes'']"
| "exactCandidates WkWorkoutNotes = [''workoutnotes'', ''workout_notes'']"

fun markerWords :: "role \<Rightarrow> string list" where
  "markerWords ExName = [''name'']"
| "markerWords ExDescription = [''description'']"
| "markerWords ExCategory = [''category'']"
| "markerWords WkDate = [''date'']"
| "markerWords WkExerciseName = [''exercise'', ''name'']"
| "markerWords WkExerciseCategory = [''exercise'', ''category'']"
| "markerWords WkSetNumber = [''set'', ''number'']"
| "markerWords WkReps = [''reps'']"
| "markerWords WkSetNotes = [''set'', ''notes'']"
| "markerWords WkWorkoutNotes = [''workout'', ''notes'']"

definition exactMatch :: "role \<Rightarrow> string \<Rightarrow> bool" where
  "exactMatch r h \<longleftrightarrow> h \<in> set (exactCandidates r)"

definition substringMatch :: "role \<Rightarrow> string \<Rightarrow> bool" where
  "substringMatch r h \<longleftrightarrow> list_all (includesStr h) (markerWords r)"

text \<open>
  The two-pass resolution the specification describes: the first header that equals a
  candidate name, and only when there is none the first header that passes the
  substring rule.
\<close>

definition resolveExactFirst :: "role \<Rightarrow> string list \<Rightarrow> int" where
  "resolveExactFirst r headers =
     (if findIndex (exactMatch r) headers \<noteq> - 1 then findIndex (exactMatch r) headers
      else findIndex (substringMatch r) headers)"

section \<open>Cells and numbers\<close>

text \<open>
  \<open>values[index]?.trim()\<close>: \<open>None\<close> is \<open>undefined\<close>, the value of an index outside the
  row (also of the index \<open>-1\<close> of an unresolved optional role).
\<close>

definition cell :: "string list \<Rightarrow> int \<Rightarrow> string option" where
  "cell values index =
     (if 0 \<le> index \<and> nat index < length values then Some (trim (values ! nat index))
      else None)"

text \<open>An optional string is truthy when it is defined and not empty.\<close>

definition truthy :: "string option \<Rightarrow> bool" where
  "truthy v \<longleftrightarrow> (case v of None \<Rightarrow> False | Some s \<Rightarrow> s \<noteq> [])"

definition strOf :: "string option \<Rightarrow> string" where
  "strOf v = (case v of None \<Rightarrow> [] | Some s \<Rightarrow> s)"

text \<open>
  The values of the host's \<open>Number\<close> type that \<open>parseInt\<close> can return besides \<open>NaN\<close>: a
  finite double whose value is an integer, or an infinity.  Negative zero is identified
  with zero (the two compare equal in every test the importers make).  The order is the
  one of \<open><\<close> on these values.
\<close>

datatype number = NegInfinity | Finite int | PosInfinity

instantiation number :: linorder
begin

fun less_eq_number :: "number \<Rightarrow> number \<Rightarrow> bool" where
  "less_eq_number NegInfinity y = True"
| "less_eq_number (Finite a) NegInfinity = False"
| "less_eq_number (Finite a) (Finite b) = (a \<le> b)"
| "less_eq_number (Finite a) PosInfinity = True"
| "less_eq_number PosInfinity NegInfinity = False"
| "less_eq_number PosInfinity (Finite b) = False"
| "less_eq_number PosInfinity PosInfinity = True"

definition less_number :: "number \<Rightarrow> number \<Rightarrow> bool" where
  "less_number x y \<longleftrightarrow> x \<le> y \<and> \<not> y \<le> x"

instance
proof
  fix x y z :: number
  show "x < y \<longleftrightarrow> x \<le> y \<and> \<not> y \<le> x"
    by (simp add: less_number_def)
  show "x \<le> x"
    by (cases x) simp_all
  show "x \<le> y \<Longrightarrow> y \<le> z \<Longrightarrow> x \<le> z"
    by (cases x; cases y; cases z) simp_all
  show "x \<le> y \<Longrightarrow> y \<le> x \<Longrightarrow> x = y"
    by (cases x; cases y) simp_all
  show "x \<le> y \<or> y \<le> x"
    by (cases x; cases y) auto
qed

end

text \<open>
  The double nearest to an integer that is not negative, ties to the even significand:
  a number below \<open>2 ^ 53\<close> is a double; a longer one keeps its 53 leading binary digits,
  rounded by the digits dropped.  \<open>None\<close> is the overflow to infinity, from \<open>2 ^ 1024\<close> on
  after rounding.
\<close>

fun bitLength :: "int \<Rightarrow> nat" where
  "bitLength n = (if n \<le> 0 then 0 else Suc (bitLength (n div 2)))"

definition roundToDouble :: "int \<Rightarrow> int option" where
  "roundToDouble m =
     (if m < 2 ^ 53 then Some m
      else
        let e = bitLength m - 53;
            q = m div 2 ^ e;
            r = m mod 2 ^ e;
            half = 2 ^ (e - 1);
            q' = (if half < r \<or> (r = half \<and> odd q) then q + 1 else q)
        in if 2 ^ 1024 \<le> q' * 2 ^ e then None else Some (q' * 2 ^ e))"

text \<open>
  \<open>parseInt(s)\<close> without a radix: leading white space is dropped, then an optional sign,
  then an optional \<open>0x\<close>/\<open>0X\<close> that selects radix 16; the longest run of digits of the radix
  is read and the rest of the string is ignored.  \<open>None\<close> is \<open>NaN\<close> (no digit was read);
  otherwise the result is the double nearest to the integer read, with its sign.  All
  digits of the run count, as the engines in use read them (the language lets an engine
  read decimal digits after the twentieth as zeros).
\<close>

definition digitVal :: "char \<Rightarrow> nat" where
  "digitVal c =
     (let n = (of_char c :: nat)
      in if 48 \<le> n \<and> n \<le> 57 then n - 48
         else if 97 \<le> n \<and> n \<le> 122 then n - 87
         else if 65 \<le> n \<and> n \<le> 90 then n - 55
         else 36)"

definition isDigitIn :: "nat \<Rightarrow> char \<Rightarrow> bool" where
  "isDigitIn radix c \<longleftrightarrow> digitVal c < radix"

definition parseInt :: "string \<Rightarrow> number option" where
  "parseInt inputString =
     (let s = dropWhile isWhiteSpace inputString;
          negative = startsWith s ''-'';
          s1 = (if startsWith s ''-'' \<or> startsWith s ''+'' then tl s else s);
          hex = (startsWith s1 ''0x'' \<or> startsWith s1 ''0X'');
          radix = (if hex then 16 else 10);
          s2 = (if hex then drop 2 s1 else s1);
          z = takeWhile (isDigitIn radix) s2;
          mathInt = foldl (\<lambda>acc c. acc * int radix + int (digitVal c)) 0 z
      in if z = [] then None
         else
           (case roundToDouble mathInt of
              None \<Rightarrow> Some (if negative then NegInfinity else PosInfinity)
            | Some v \<Rightarrow> Some (Finite (if negative then - v else v))))"

section \<open>Errors\<close>

text \<open>
  Every \<open>throw new Error(...)\<close> of the two importers, with the values its message
  interpolates: the header row, or the offending text and the line number \<open>i + 1\<close>.
\<close>

datatype error =
    TooFewLines
  | ExercisesMissingName "string list"
  | ExercisesMissingCategory "string list"
  | WorkoutsMissingDate
  | WorkoutsMissingExerciseName
  | WorkoutsMissingReps
  | WorkoutsMissingSetNumber
  | InvalidDate string nat
  | InvalidReps string nat
  | InvalidSetNumber string nat

fun showNat :: "nat \<Rightarrow> string" where
  "showNat n =
     (if n < 10 then [char_of (48 + n)] else showNat (n div 10) @ [char_of (48 + n mod 10)])"

definition quoted :: "string \<Rightarrow> string" where
  "quoted s = [CHR 0x22] @ s @ [CHR 0x22]"

fun message :: "error \<Rightarrow> string" where
  "message TooFewLines = ''CSV must have at least a header row and one data row''"
| "message (ExercisesMissingName headers) =
     ''CSV must have a '' @ quoted ''name'' @ '' column. Found headers: '' @ join '', '' headers"
| "message (ExercisesMissingCategory headers) =
     ''CSV must have a '' @ quoted ''category'' @ '' column. Found headers: ''
       @ join '', '' headers"
| "message WorkoutsMissingDate = ''CSV must have a '' @ quoted ''date'' @ '' column''"
| "message WorkoutsMissingExerciseName =
     ''CSV must have an '' @ quoted ''exerciseName'' @ '' column''"
| "message WorkoutsMissingReps = ''CSV must have a '' @ quoted ''reps'' @ '' column''"
| "message WorkoutsMissingSetNumber =
     ''CSV must have a '' @ quoted ''setNumber'' @ '' column for proper set position tracking''"
| "message (InvalidDate dateStr line) =
     ''Invalid date '' @ quoted dateStr @ '' on line '' @ showNat line"
| "message (InvalidReps repsStr line) =
     ''Invalid reps '' @ quoted repsStr @ '' on line '' @ showNat line"
| "message (InvalidSetNumber setNumberStr line) =
     ''Invalid set number '' @ quoted setNumberStr @ '' on line '' @ showNat line
       @ ''. Set number must be 1 or greater.''"

section \<open>Exercise importer\<close>

record ExerciseCSVRow =
  row_name :: string
  row_description :: "string option"
  row_category :: category

text \<open>
  The body of the \<open>for\<close> loop of \<open>parseExercisesCSV\<close> for one line: \<open>None\<close> when the
  line is skipped (\<open>continue\<close>), the pushed row otherwise.  A category cell outside the
  row is \<open>undefined\<close> and takes the \<open>default\<close> branch of the \<open>switch\<close>.
\<close>

definition exerciseRow :: "int \<Rightarrow> int \<Rightarrow> int \<Rightarrow> string \<Rightarrow> ExerciseCSVRow option" where
  "exerciseRow nameIndex descriptionIndex categoryIndex rawLine =
     (let line = trim rawLine
      in if line = [] then None
         else
           let values = parseCSVLine line;
               name = cell values nameIndex
           in if \<not> truthy name then None
              else
                let categoryRaw = map_option toLowerCase (cell values categoryIndex);
                    category = (case categoryRaw of None \<Rightarrow> FullBody
                                | Some c \<Rightarrow> normalizeCategory c);
                    description = (if 0 \<le> descriptionIndex then cell values descriptionIndex
                                   else Some [])
                in Some \<lparr>row_name = strOf name,
                         row_description = (if truthy description then description else None),
                         row_category = category\<rparr>)"

definition parseExercisesCSV :: "string \<Rightarrow> error + ExerciseCSVRow list" where
  "parseExercisesCSV csvContent =
     (case split CHR 0x0A (trim csvContent) of
        header # row # rows \<Rightarrow>
          let headers = headerRow header;
              nameIndex = resolveIndex ExName headers;
              descriptionIndex = resolveIndex ExDescription headers;
              categoryIndex = resolveIndex ExCategory headers
          in if nameIndex = - 1 then Inl (ExercisesMissingName headers)
             else if categoryIndex = - 1 then Inl (ExercisesMissingCategory headers)
             else Inr (List.map_filter (exerciseRow nameIndex descriptionIndex categoryIndex)
                         (row # rows))
      | _ \<Rightarrow> Inl TooFewLines)"

section \<open>Workout importer\<close>

subsection \<open>Data\<close>

text \<open>
  An \<open>Exercise\<close> object as the importer reads and creates it: identifier, name, category
  and creation time (the importer neither reads nor writes any other field of it).  In a
  \<open>Workout\<close> the date is the day key of its rows: the source builds it with
  \<open>new Date(dateStr)\<close> from the key under which \<open>workoutMap\<close> holds the day.
\<close>

record Exercise =
  ex_id :: string
  ex_name :: string
  ex_category :: category
  ex_createdAt :: nat

record WorkoutSet =
  ws_id :: string
  ws_exerciseId :: string
  ws_reps :: number
  ws_notes :: "string option"

record Workout =
  w_id :: string
  w_date :: string
  w_sets :: "WorkoutSet list"
  w_notes :: "string option"

text \<open>
  The transient set record of one data row (its \<open>notes\<close> field is \<open>setNotes\<close> here), and
  the value \<open>workoutMap\<close> holds per day.
\<close>

record RowSet =
  exerciseId :: string
  reps :: number
  setNotes :: "string option"
  setNumber :: number
  exerciseName :: string

record DayData =
  d_sets :: "RowSet list"
  d_notes :: "string option"

text \<open>
  What the importer takes from its platform:
  \<^item> \<open>dateKey s\<close> is \<open>new Date(s).toDateString()\<close>, the calendar day of the parsed date, and
    \<open>None\<close> when \<open>new Date(s)\<close> is an invalid date;
  \<^item> \<open>randomUUID k\<close> is the identifier returned by the call of \<open>crypto.randomUUID()\<close> that
    follows \<open>k\<close> earlier calls;
  \<^item> \<open>now k\<close> is the clock read by \<open>new Date()\<close> after \<open>k\<close> identifiers were drawn.
\<close>

record platform =
  dateKey :: "string \<Rightarrow> string option"
  randomUUID :: "nat \<Rightarrow> string"
  now :: "nat \<Rightarrow> nat"

text \<open>The column indices found in the header row.\<close>

record columns =
  dateIndex :: int
  exerciseNameIndex :: int
  exerciseCategoryIndex :: int
  setNumberIndex :: int
  repsIndex :: int
  setNotesIndex :: int
  workoutNotesIndex :: int

text \<open>
  The memory one call works on.  \<open>heap\<close> holds the \<open>Exercise\<close> objects, an object
  reference is its position; the caller's objects come first, an object created by
  the call is allocated behind them.  \<open>exerciseMap\<close> and \<open>workoutMap\<close> are the two
  \<open>Map\<close>s (association lists in insertion order), \<open>newExercises\<close> is the output array of
  references, \<open>uuidCount\<close> counts the identifiers drawn so far.
\<close>

record importState =
  heap :: "Exercise list"
  exerciseMap :: "(string \<times> nat) list"
  newExercises :: "nat list"
  workoutMap :: "(string \<times> DayData) list"
  uuidCount :: nat

subsection \<open>One data row\<close>

definition validCategories :: "category list" where
  "validCategories = [Abs, Legs, Arms, Back, Shoulders, Chest, Cardio, FullBody]"

text \<open>
  \<open>validCategories.includes(categoryRaw)\<close> followed by the cast: the category whose name
  \<open>categoryRaw\<close> is, if it is one of the eight.
\<close>

definition categoryOfName :: "string \<Rightarrow> category option" where
  "categoryOfName categoryRaw = find (\<lambda>c. categoryName c = categoryRaw) validCategories"

text \<open>
  Find or create the exercise of a row: the reference found under the lower-cased name,
  or a new object appended to the heap, registered in \<open>exerciseMap\<close> and pushed to
  \<open>newExercises\<close>.
\<close>

definition findOrCreateExercise ::
  "platform \<Rightarrow> columns \<Rightarrow> string list \<Rightarrow> string \<Rightarrow> importState \<Rightarrow> nat \<times> importState" where
  "findOrCreateExercise P cols values name st =
     (case map_of (exerciseMap st) (toLowerCase name) of
        Some exercise \<Rightarrow> (exercise, st)
      | None \<Rightarrow>
          let category =
                (if 0 \<le> exerciseCategoryIndex cols then
                   (case map_option toLowerCase (cell values (exerciseCategoryIndex cols)) of
                      None \<Rightarrow> FullBody
                    | Some categoryRaw \<Rightarrow>
                        (case categoryOfName categoryRaw of
                           Some c \<Rightarrow> c
                         | None \<Rightarrow> FullBody))
                 else FullBody);
              exercise = \<lparr>ex_id = randomUUID P (uuidCount st), ex_name = name,
                          ex_category = category, ex_createdAt = now P (uuidCount st)\<rparr>;
              ref = length (heap st)
          in (ref, st\<lparr>heap := heap st @ [exercise],
                      exerciseMap := AList.update (toLowerCase name) ref (exerciseMap st),
                      newExercises := newExercises st @ [ref],
                      uuidCount := Suc (uuidCount st)\<rparr>))"

text \<open>\<open>isNaN(reps) || reps < 0\<close> and \<open>isNaN(setNumber) || setNumber < 1\<close>.\<close>

definition checkReps :: "string \<Rightarrow> nat \<Rightarrow> error + number" where
  "checkReps repsStr i =
     (case parseInt repsStr of
        None \<Rightarrow> Inl (InvalidReps repsStr (i + 1))
      | Some r \<Rightarrow> if r < Finite 0 then Inl (InvalidReps repsStr (i + 1)) else Inr r)"

definition checkSetNumber :: "string \<Rightarrow> nat \<Rightarrow> error + number" where
  "checkSetNumber setNumberStr i =
     (case parseInt setNumberStr of
        None \<Rightarrow> Inl (InvalidSetNumber setNumberStr (i + 1))
      | Some n \<Rightarrow> if n < Finite 1 then Inl (InvalidSetNumber setNumberStr (i + 1)) else Inr n)"

text \<open>The two conditions under which the checks throw, as predicates of the cell.\<close>

definition repsRefused :: "string \<Rightarrow> bool" where
  "repsRefused repsStr \<longleftrightarrow>
     (case parseInt repsStr of None \<Rightarrow> True | Some r \<Rightarrow> r < Finite 0)"

definition setNumberRefused :: "string \<Rightarrow> bool" where
  "setNumberRefused setNumberStr \<longleftrightarrow>
     (case parseInt setNumberStr of None \<Rightarrow> True | Some n \<Rightarrow> n < Finite 1)"

text \<open>
  Group by date: create the day's entry if the key is new, push the set, and adopt the
  row's workout notes if the day has none yet.
\<close>

definition addToDay ::
  "string \<Rightarrow> RowSet \<Rightarrow> string option \<Rightarrow> (string \<times> DayData) list \<Rightarrow> (string \<times> DayData) list" where
  "addToDay key s workoutNotes wm =
     (let wm1 = (if map_of wm key = None
                 then AList.update key \<lparr>d_sets = [], d_notes = None\<rparr> wm else wm);
          wm2 = AList.map_entry key (\<lambda>d. d\<lparr>d_sets := d_sets d @ [s]\<rparr>) wm1
      in AList.map_entry key
           (\<lambda>d. if truthy workoutNotes \<and> \<not> truthy (d_notes d)
                then d\<lparr>d_notes := workoutNotes\<rparr> else d) wm2)"

text \<open>
  The body of the \<open>for\<close> loop of \<open>parseWorkoutsCSV\<close> for the line with index \<open>i\<close>:
  the state after the row, or the error thrown.
\<close>

definition processRow ::
  "platform \<Rightarrow> columns \<Rightarrow> nat \<Rightarrow> string \<Rightarrow> importState \<Rightarrow> error + importState" where
  "processRow P cols i rawLine st =
     (let line = trim rawLine
      in if line = [] then Inr st
         else
           let values = parseCSVLine line;
               dateStr = cell values (dateIndex cols);
               name = cell values (exerciseNameIndex cols);
               repsStr = cell values (repsIndex cols);
               setNumberStr = cell values (setNumberIndex cols)
           in if \<not> truthy dateStr \<or> \<not> truthy name \<or> \<not> truthy repsStr \<or> \<not> truthy setNumberStr
              then Inr st
              else
                (case dateKey P (strOf dateStr) of
                   None \<Rightarrow> Inl (InvalidDate (strOf dateStr) (i + 1))
                 | Some key \<Rightarrow>
                     (case checkReps (strOf repsStr) i of
                        Inl e \<Rightarrow> Inl e
                      | Inr r \<Rightarrow>
                          (case checkSetNumber (strOf setNumberStr) i of
                             Inl e \<Rightarrow> Inl e
                           | Inr n \<Rightarrow>
                               let (ref, st1) = findOrCreateExercise P cols values (strOf name) st;
                                   s = \<lparr>exerciseId = ex_id (heap st1 ! ref), reps = r,
                                        setNotes = (if 0 \<le> setNotesIndex cols
                                                    then cell values (setNotesIndex cols)
                                                    else None),
                                        setNumber = n, exerciseName = strOf name\<rparr>;
                                   workoutNotes = (if 0 \<le> workoutNotesIndex cols
                                                   then cell values (workoutNotesIndex cols)
                                                   else None)
                               in Inr (st1\<lparr>workoutMap :=
                                             addToDay key s workoutNotes (workoutMap st1)\<rparr>)))))"

fun processRows ::
  "platform \<Rightarrow> columns \<Rightarrow> nat \<Rightarrow> string list \<Rightarrow> importState \<Rightarrow> error + importState" where
  "processRows P cols i [] st = Inr st"
| "processRows P cols i (l # ls) st =
     (case processRow P cols i l st of
        Inl e \<Rightarrow> Inl e
      | Inr st' \<Rightarrow> processRows P cols (Suc i) ls st')"

subsection \<open>Ordering the sets of a day\<close>

text \<open>
  \<open>exerciseGroups\<close>: a \<open>Map\<close> from \<open>exerciseName\<close> to the day's sets of that name, keys in
  the order of their first set.
\<close>

definition addToGroup :: "(string \<times> RowSet list) list \<Rightarrow> RowSet \<Rightarrow> (string \<times> RowSet list) list" where
  "addToGroup groups s =
     (let groups1 = (if map_of groups (exerciseName s) = None
                     then AList.update (exerciseName s) [] groups else groups)
      in AList.map_entry (exerciseName s) (\<lambda>g. g @ [s]) groups1)"

definition exerciseGroups :: "RowSet list \<Rightarrow> (string \<times> RowSet list) list" where
  "exerciseGroups sets = foldl addToGroup [] sets"

text \<open>
  Each group is sorted by \<open>setNumber\<close> (the sort of the platform is stable; the
  comparator \<open>a.setNumber - b.setNumber\<close> has the sign of the order of the two numbers, and
  is \<open>NaN\<close>, read as equal, for two infinities) and pushed to
  \<open>orderedSets\<close> without \<open>setNumber\<close> and \<open>exerciseName\<close>; the identifier is added later.
\<close>

definition orderedSets :: "RowSet list \<Rightarrow> RowSet list" where
  "orderedSets sets = concat (map (\<lambda>(name, exerciseSets). sort_key setNumber exerciseSets)
                                  (exerciseGroups sets))"

definition toWorkoutSet :: "platform \<Rightarrow> nat \<Rightarrow> RowSet \<Rightarrow> WorkoutSet" where
  "toWorkoutSet P k s =
     \<lparr>ws_id = randomUUID P k, ws_exerciseId = exerciseId s, ws_reps = reps s,
      ws_notes = setNotes s\<rparr>"

text \<open>
  One \<open>Workout\<close>: its identifier is drawn first, then one identifier per set, in order.
\<close>

definition toWorkout :: "platform \<Rightarrow> nat \<Rightarrow> string \<times> DayData \<Rightarrow> Workout" where
  "toWorkout P k entry =
     (let ordered = orderedSets (d_sets (snd entry))
      in \<lparr>w_id = randomUUID P k, w_date = fst entry,
          w_sets = map (\<lambda>(j, s). toWorkoutSet P (k + 1 + j) s) (enumerate 0 ordered),
          w_notes = d_notes (snd entry)\<rparr>)"

fun toWorkouts :: "platform \<Rightarrow> nat \<Rightarrow> (string \<times> DayData) list \<Rightarrow> Workout list" where
  "toWorkouts P k [] = []"
| "toWorkouts P k (entry # entries) =
     toWorkout P k entry
       # toWorkouts P (k + 1 + length (orderedSets (d_sets (snd entry)))) entries"

subsection \<open>The importer\<close>

definition workoutColumns :: "string list \<Rightarrow> columns" where
  "workoutColumns headers =
     \<lparr>dateIndex = resolveIndex WkDate headers,
      exerciseNameIndex = resolveIndex WkExerciseName headers,
      exerciseCategoryIndex = resolveIndex WkExerciseCategory headers,
      setNumberIndex = resolveIndex WkSetNumber headers,
      repsIndex = resolveIndex WkReps headers,
      setNotesIndex = resolveIndex WkSetNotes headers,
      workoutNotesIndex = resolveIndex WkWorkoutNotes headers\<rparr>"

text \<open>
  \<open>new Map(exercises.map(ex => [ex.name.toLowerCase(), ex]))\<close>: the entries are set one
  after the other, a later exercise of the same key replaces the earlier one.
\<close>

definition initialState :: "Exercise list \<Rightarrow> importState" where
  "initialState exercises =
     \<lparr>heap = exercises,
      exerciseMap = fold (\<lambda>ref m. AList.update (toLowerCase (ex_name (exercises ! ref))) ref m)
                         [0 ..< length exercises] [],
      newExercises = [],
      workoutMap = [],
      uuidCount = 0\<rparr>"

text \<open>
  The result of a call: the two returned arrays (the new exercises as the objects the
  returned references point to) and the heap the call leaves behind, whose first
  \<open>length exercises\<close> objects are the caller's catalog.
\<close>

record importResult =
  workouts :: "Workout list"
  newExercisesOut :: "Exercise list"
  heapAfter :: "Exercise list"

definition parseWorkoutsCSV :: "platform \<Rightarrow> string \<Rightarrow> Exercise list \<Rightarrow> error + importResult" where
  "parseWorkoutsCSV P csvContent exercises =
     (case split CHR 0x0A (trim csvContent) of
        header # row # rows \<Rightarrow>
          let headers = headerRow header;
              cols = workoutColumns headers
          in if dateIndex cols = - 1 then Inl WorkoutsMissingDate
             else if exerciseNameIndex cols = - 1 then Inl WorkoutsMissingExerciseName
             else if repsIndex cols = - 1 then Inl WorkoutsMissingReps
             else if setNumberIndex cols = - 1 then Inl WorkoutsMissingSetNumber
             else
               (case processRows P cols 1 (row # rows) (initialState exercises) of
                  Inl e \<Rightarrow> Inl e
                | Inr st \<Rightarrow>
                    Inr \<lparr>workouts = toWorkouts P (uuidCount st) (workoutMap st),
                         newExercisesOut = map (\<lambda>ref. heap st ! ref) (newExercises st),
                         heapAfter = heap st\<rparr>)
      | _ \<Rightarrow> Inl TooFewLines)"

section \<open>Template generator\<close>

definition csvTemplate :: "string list \<Rightarrow> string list list \<Rightarrow> string" where
  "csvTemplate headers examples =
     join [CHR 0x0A] (join '','' headers # map (\<lambda>row. join '','' (map quoted row)) examples)"

definition generateExerciseCSVTemplate :: string where
  "generateExerciseCSVTemplate =
     csvTemplate [''name'', ''category'', ''description'']
       [[''Push-ups'', ''arms'', ''Standard push-ups for chest and arms''],
        [''Squats'', ''legs'', ''Bodyweight squats for legs''],
        [''Plank'', ''abs'', ''Core stability exercise''],
        [''Pull-ups'', ''back'', ''Upper body pulling exercise'']]"

definition workoutTemplateHeaders :: "string list" where
  "workoutTemplateHeaders =
     [''date'', ''exerciseName'', ''exerciseCategory'', ''setNumber'', ''reps'', ''setNotes'',
      ''workoutNotes'']"

definition workoutTemplateExamples :: "string list list" where
  "workoutTemplateExamples =
     [[''2024-01-15'', ''Push-ups'', ''arms'', ''1'', ''15'', ''Felt strong'',
       ''Great morning workout''],
      [''2024-01-15'', ''Push-ups'', ''arms'', ''2'', ''12'', ''Getting tired'',
       ''Great morning workout''],
      [''2024-01-15'', ''Push-ups'', ''arms'', ''3'', ''10'', ''Final set'',
       ''Great morning workout''],
      [''2024-01-15'', ''Squats'', ''legs'', ''1'', ''20'', ''Good form'',
       ''Great morning workout''],
      [''2024-01-15'', ''Squats'', ''legs'', ''2'', ''18'', ''Legs burning'',
       ''Great morning workout''],
      [''2024-01-16'', ''Plank'', ''abs'', ''1'', ''30'', ''Held for 30 seconds'',
       ''Quick abs session''],
      [''2024-01-16'', ''Plank'', ''abs'', ''2'', ''25'', ''Shorter hold'',
       ''Quick abs session'']]"

definition generateWorkoutCSVTemplate :: string where
  "generateWorkoutCSVTemplate = csvTemplate workoutTemplateHeaders workoutTemplateExamples"

section \<open>A platform for closed examples\<close>

text \<open>
  The two days of the workout template as a calendar in UTC reads them (any other
  string is taken as an invalid date), identifiers numbered in the order they are
  drawn, and a clock that stands still.
\<close>

definition sampleDateKey :: "string \<Rightarrow> string option" where
  "sampleDateKey s =
     (if s = ''2024-01-15'' then Some ''Mon Jan 15 2024''
      else if s = ''2024-01-16'' then Some ''Tue Jan 16 2024''
      else None)"

definition samplePlatform :: platform where
  "samplePlatform = \<lparr>dateKey = sampleDateKey, randomUUID = (\<lambda>k. ''id-'' @ showNat k),
                      now = (\<lambda>k. 0)\<rparr>"

text \<open>
  The same platform five hours west of UTC.  \<open>new Date(s)\<close> reads the date-only form
  \<open>YYYY-MM-DD\<close> as midnight UTC, an instant of the evening before in that zone, and
  \<open>toDateString()\<close> gives the local day of the instant.
\<close>

definition westDateKey :: "string \<Rightarrow> string option" where
  "westDateKey s =
     (if s = ''2024-01-15'' then Some ''Sun Jan 14 2024''
      else if s = ''2024-01-16'' then Some ''Mon Jan 15 2024''
      else None)"

definition westPlatform :: platform where
  "westPlatform = \<lparr>dateKey = westDateKey, randomUUID = (\<lambda>k. ''id-'' @ showNat k),
                    now = (\<lambda>k. 0)\<rparr>"

section \<open>The rows the specification counts\<close>

text \<open>
  A data row passes the completeness check when it is not blank after trimming and its
  date, exercise name, reps and set number cells are present and not empty.
\<close>

definition completeRow :: "columns \<Rightarrow> string \<Rightarrow> bool" where
  "completeRow cols rawLine \<longleftrightarrow>
     trim rawLine \<noteq> [] \<and>
     (let values = parseCSVLine (trim rawLine)
      in truthy (cell values (dateIndex cols)) \<and> truthy (cell values (exerciseNameIndex cols)) \<and>
         truthy (cell values (repsIndex cols)) \<and> truthy (cell values (setNumberIndex cols)))"

text \<open>
  The specification's valid row: its date is a valid date, its reps denote an integer
  that is not negative and its set number denotes an integer that is at least 1.  A
  string denotes an integer when it is an optional sign followed by decimal digits and
  nothing else.
\<close>

definition integerString :: "string \<Rightarrow> int option" where
  "integerString s =
     (let negative = startsWith s ''-'';
          digits = (if startsWith s ''-'' \<or> startsWith s ''+'' then tl s else s)
      in if digits \<noteq> [] \<and> list_all (isDigitIn 10) digits
         then Some (if negative then - foldl (\<lambda>acc c. acc * 10 + int (digitVal c)) 0 digits
                    else foldl (\<lambda>acc c. acc * 10 + int (digitVal c)) 0 digits)
         else None)"

definition validRow :: "platform \<Rightarrow> columns \<Rightarrow> string \<Rightarrow> bool" where
  "validRow P cols rawLine \<longleftrightarrow>
     (let values = parseCSVLine (trim rawLine)
      in dateKey P (strOf (cell values (dateIndex cols))) \<noteq> None \<and>
         (case integerString (strOf (cell values (repsIndex cols))) of
            None \<Rightarrow> False | Some r \<Rightarrow> 0 \<le> r) \<and>
         (case integerString (strOf (cell values (setNumberIndex cols))) of
            None \<Rightarrow> False | Some n \<Rightarrow> 1 \<le> n))"

text \<open>
  The row as the importer tests it: its date is a valid date and neither of the two
  number checks throws.
\<close>

definition acceptedRow :: "platform \<Rightarrow> columns \<Rightarrow> string \<Rightarrow> bool" where
  "acceptedRow P cols rawLine \<longleftrightarrow>
     (let values = parseCSVLine (trim rawLine)
      in dateKey P (strOf (cell values (dateIndex cols))) \<noteq> None \<and>
         \<not> repsRefused (strOf (cell values (repsIndex cols))) \<and>
         \<not> setNumberRefused (strOf (cell values (setNumberIndex cols))))"


text \<open>The number of \<open>WorkoutSet\<close> records across the returned workouts.\<close>

definition countSets :: "Workout list \<Rightarrow> nat" where
  "countSets ws = sum_list (map (\<lambda>w. length (w_sets w)) ws)"

text \<open>The header line and the data lines of a file with at least two lines.\<close>

definition headerLine :: "string \<Rightarrow> string" where
  "headerLine csvContent = hd (split CHR 0x0A (trim csvContent))"

definition dataLines :: "string \<Rightarrow> string list" where
  "dataLines csvContent = tl (split CHR 0x0A (trim csvContent))"

section \<open>Category normalization\<close>

lemma normalizeCategory_lookup:
  "normalizeCategory s = (case map_of synonymTable s of Some c \<Rightarrow> c | None \<Rightarrow> FullBody)"
  by (simp add: normalizeCategory_def synonymTable_def)

lemma normalizeCategory_canonical: "normalizeCategory (categoryName c) = c"
  by (cases c) (simp_all add: normalizeCategory_def)

text \<open>
  Claim C5.  Category normalization is a total function on tokens: every token of the
  synonym table maps to the category the table gives, each of the eight canonical names
  maps to its own category, every token outside the table maps to full-body, and
  normalizing the name of a normalized category changes nothing (idempotence).
\<close>

theorem normalizeCategory_total_idempotent:
  "(\<forall>(s, c) \<in> set synonymTable. normalizeCategory s = c) \<and>
   (\<forall>c. normalizeCategory (categoryName c) = c) \<and>
   (\<forall>s. s \<notin> fst ` set synonymTable \<longrightarrow> normalizeCategory s = FullBody) \<and>
   (\<forall>s. normalizeCategory (categoryName (normalizeCategory s)) = normalizeCategory s)"
proof (intro conjI allI impI)
  show "\<forall>(s, c) \<in> set synonymTable. normalizeCategory s = c"
    by (simp add: synonymTable_def normalizeCategory_def)
next
  fix c show "normalizeCategory (categoryName c) = c"
    by (rule normalizeCategory_canonical)
next
  fix s assume "s \<notin> fst ` set synonymTable"
  then have "map_of synonymTable s = None"
    by (simp add: map_of_eq_None_iff)
  then show "normalizeCategory s = FullBody"
    by (simp add: normalizeCategory_lookup)
next
  fix s show "normalizeCategory (categoryName (normalizeCategory s)) = normalizeCategory s"
    by (rule normalizeCategory_canonical)
qed

theorem normalizeCategory_total_idempotent_witness:
  "(''core'', Abs) \<in> set synonymTable \<and> normalizeCategory ''core'' = Abs \<and>
   ''zumba'' \<notin> fst ` set synonymTable \<and> normalizeCategory ''zumba'' = FullBody \<and>
   normalizeCategory (categoryName (normalizeCategory ''pecs'')) = normalizeCategory ''pecs''"
proof -
  have a: "(''core'', Abs) \<in> set synonymTable" by (simp add: synonymTable_def)
  have b: "''zumba'' \<notin> fst ` set synonymTable" by (simp add: synonymTable_def)
  note t = normalizeCategory_total_idempotent
  from t have t1: "\<forall>(s, c) \<in> set synonymTable. normalizeCategory s = c" by (rule conjunct1)
  from t have t3: "\<forall>s. s \<notin> fst ` set synonymTable \<longrightarrow> normalizeCategory s = FullBody"
    by (elim conjE)
  from t have t4: "\<forall>s. normalizeCategory (categoryName (normalizeCategory s)) = normalizeCategory s"
    by (elim conjE)
  from bspec [OF t1 a] have c1: "normalizeCategory ''core'' = Abs" by simp
  from t3 b have c2: "normalizeCategory ''zumba'' = FullBody" by (elim allE impE)
  from t4 have c3: "normalizeCategory (categoryName (normalizeCategory ''pecs'')) = normalizeCategory ''pecs''"
    by (elim allE)
  from a b c1 c2 c3 show ?thesis by (intro conjI)
qed

section \<open>Header resolution\<close>

lemma findIndexFrom_none: "\<forall>x \<in> set xs. \<not> p x \<Longrightarrow> findIndexFrom p xs i = - 1"
  by (induction xs arbitrary: i) auto

lemma findIndexFrom_first:
  "k < length xs \<Longrightarrow> p (xs ! k) \<Longrightarrow> \<forall>j<k. \<not> p (xs ! j) \<Longrightarrow> findIndexFrom p xs i = i + int k"
proof (induction xs arbitrary: i k)
  case Nil
  then show ?case by simp
next
  case (Cons x xs)
  show ?case
  proof (cases k)
    case 0
    with Cons.prems show ?thesis by simp
  next
    case (Suc m)
    with Cons.prems have "\<not> p x" by auto
    moreover have "findIndexFrom p xs (i + 1) = (i + 1) + int m"
      using Cons.prems Suc by (intro Cons.IH) auto
    ultimately show ?thesis using Suc by simp
  qed
qed

lemma ex_first_index:
  assumes "\<exists>k<length xs. p (xs ! k)"
  shows "\<exists>k<length xs. p (xs ! k) \<and> (\<forall>j<k. \<not> p (xs ! j))"
proof -
  define k where "k = (LEAST k. k < length xs \<and> p (xs ! k))"
  from assms have a: "k < length xs \<and> p (xs ! k)"
    unfolding k_def by (elim exE) (rule LeastI)
  have "\<not> p (xs ! j)" if "j < k" for j
  proof
    assume "p (xs ! j)"
    with that a have "j < length xs \<and> p (xs ! j)" by simp
    then have "k \<le> j" unfolding k_def by (rule Least_le)
    with that show False by simp
  qed
  with a show ?thesis by blast
qed

lemma headerMatches_iff: "headerMatches r h \<longleftrightarrow> exactMatch r h \<or> substringMatch r h"
  by (cases r) (auto simp: exactMatch_def substringMatch_def)

text \<open>
  Claim C3, as the code has it.  Every role is resolved in one pass over the header row:
  the result is the index of the first header that equals one of the role's candidate
  names or passes the role's substring rule, whichever the header does, and \<open>-1\<close> when
  no header does either.
\<close>

theorem resolveIndex_first_match:
  "(if \<exists>h \<in> set headers. exactMatch r h \<or> substringMatch r h
    then \<exists>k<length headers.
           resolveIndex r headers = int k \<and>
           (exactMatch r (headers ! k) \<or> substringMatch r (headers ! k)) \<and>
           (\<forall>j<k. \<not> (exactMatch r (headers ! j) \<or> substringMatch r (headers ! j)))
    else resolveIndex r headers = - 1)"
proof (cases "\<exists>h \<in> set headers. headerMatches r h")
  case True
  then have "\<exists>k<length headers. headerMatches r (headers ! k)"
    by (auto simp: in_set_conv_nth)
  from ex_first_index [OF this] obtain k where
    k: "k < length headers" "headerMatches r (headers ! k)" "\<forall>j<k. \<not> headerMatches r (headers ! j)"
    by blast
  then have "resolveIndex r headers = int k"
    using findIndexFrom_first [of k headers "headerMatches r" 0]
    by (simp add: resolveIndex_def findIndex_def)
  with k True show ?thesis
    unfolding headerMatches_iff by auto
next
  case False
  then have "resolveIndex r headers = - 1"
    by (simp add: resolveIndex_def findIndex_def findIndexFrom_none)
  with False show ?thesis
    unfolding headerMatches_iff by auto
qed

theorem resolveIndex_first_match_witness:
  "resolveIndex WkSetNumber [''date'', ''set notes'', ''set number'', ''set''] = 2 \<and>
   resolveIndex WkSetNumber [''date'', ''reps''] = - 1"
proof -
  let ?hs = "[''date'', ''set notes'', ''set number'', ''set'']"
  have m: "\<exists>h \<in> set ?hs. exactMatch WkSetNumber h \<or> substringMatch WkSetNumber h"
    by (simp add: exactMatch_def)
  have n0: "\<not> (exactMatch WkSetNumber (?hs ! 0) \<or> substringMatch WkSetNumber (?hs ! 0))"
    by (simp add: exactMatch_def substringMatch_def)
  have n1: "\<not> (exactMatch WkSetNumber (?hs ! 1) \<or> substringMatch WkSetNumber (?hs ! 1))"
    by (simp add: exactMatch_def substringMatch_def)
  have y2: "substringMatch WkSetNumber (?hs ! 2)"
    by (simp add: substringMatch_def)
  from resolveIndex_first_match [of ?hs WkSetNumber] m obtain k where
    k: "k < length ?hs" "resolveIndex WkSetNumber ?hs = int k"
       "exactMatch WkSetNumber (?hs ! k) \<or> substringMatch WkSetNumber (?hs ! k)"
       "\<forall>j<k. \<not> (exactMatch WkSetNumber (?hs ! j) \<or> substringMatch WkSetNumber (?hs ! j))"
    by (auto split: if_splits)
  have "k = 2"
  proof -
    from k(4) y2 have "\<not> 2 < k" by blast
    moreover from k(3) n0 have "k \<noteq> 0" by (intro notI) simp
    moreover from k(3) n1 have "k \<noteq> 1" by (intro notI) simp
    ultimately show ?thesis by arith
  qed
  with k(2) have a: "resolveIndex WkSetNumber ?hs = 2" by simp
  let ?gs = "[''date'', ''reps'']"
  have "\<not> (\<exists>h \<in> set ?gs. exactMatch WkSetNumber h \<or> substringMatch WkSetNumber h)"
    by (simp add: exactMatch_def substringMatch_def)
  with resolveIndex_first_match [of ?gs WkSetNumber]
  have b: "resolveIndex WkSetNumber ?gs = - 1" by (simp only: if_False)
  from a b show ?thesis by (intro conjI)
qed

text \<open>
  Claim C3 as stated fails: in the header row \<open>username, name\<close> the second header equals
  the candidate \<open>name\<close> and the first one only contains it, yet the name role resolves to
  the first header; the exact-first resolution of the specification gives the second.
\<close>

theorem exact_header_not_preferred:
  "resolveIndex ExName [''username'', ''name''] = 0 \<and>
   resolveExactFirst ExName [''username'', ''name''] = 1 \<and>
   exactMatch ExName ''name'' \<and> \<not> exactMatch ExName ''username'' \<and>
   substringMatch ExName ''username''"
  by (simp add: resolveIndex_def resolveExactFirst_def findIndex_def exactMatch_def
      substringMatch_def)

section \<open>Missing required columns\<close>

lemma startsWith_append: "startsWith (w @ ys) w"
  by (induction w) auto

lemma includesStr_self_append: "includesStr (w @ ys) w"
  by (cases "w @ ys") (auto simp: startsWith_append dest: sym)

lemma includesStr_append_left: "includesStr s w \<Longrightarrow> includesStr (xs @ s) w"
  by (induction xs) auto

lemma includesStr_middle: "includesStr (xs @ w @ ys) w"
  by (rule includesStr_append_left) (rule includesStr_self_append)

lemma includesStr_end: "includesStr (xs @ w) w"
  using includesStr_middle [of xs w "[]"] by simp

text \<open>
  Claim C7, as the code has it.  In a file of at least two lines whose header row leaves
  a required role unresolved, both importers fail with the error of the first such role
  in the order name, category (exercises) and date, exerciseName, reps, setNumber
  (workouts).  Each message names the missing column in quotes; the two messages of the
  exercise importer end with the list of the headers found, the four messages of the
  workout importer are fixed texts.
\<close>

theorem missing_required_column:
  assumes "split CHR 0x0A (trim csvContent) = header # row # rows"
  shows
   "(resolveIndex ExName (headerRow header) = - 1 \<longrightarrow>
       parseExercisesCSV csvContent = Inl (ExercisesMissingName (headerRow header))) \<and>
    (resolveIndex ExName (headerRow header) \<noteq> - 1 \<and>
     resolveIndex ExCategory (headerRow header) = - 1 \<longrightarrow>
       parseExercisesCSV csvContent = Inl (ExercisesMissingCategory (headerRow header))) \<and>
    (resolveIndex WkDate (headerRow header) = - 1 \<longrightarrow>
       parseWorkoutsCSV P csvContent exercises = Inl WorkoutsMissingDate) \<and>
    (resolveIndex WkDate (headerRow header) \<noteq> - 1 \<and>
     resolveIndex WkExerciseName (headerRow header) = - 1 \<longrightarrow>
       parseWorkoutsCSV P csvContent exercises = Inl WorkoutsMissingExerciseName) \<and>
    (resolveIndex WkDate (headerRow header) \<noteq> - 1 \<and>
     resolveIndex WkExerciseName (headerRow header) \<noteq> - 1 \<and>
     resolveIndex WkReps (headerRow header) = - 1 \<longrightarrow>
       parseWorkoutsCSV P csvContent exercises = Inl WorkoutsMissingReps) \<and>
    (resolveIndex WkDate (headerRow header) \<noteq> - 1 \<and>
     resolveIndex WkExerciseName (headerRow header) \<noteq> - 1 \<and>
     resolveIndex WkReps (headerRow header) \<noteq> - 1 \<and>
     resolveIndex WkSetNumber (headerRow header) = - 1 \<longrightarrow>
       parseWorkoutsCSV P csvContent exercises = Inl WorkoutsMissingSetNumber) \<and>
    includesStr (message (ExercisesMissingName hs)) (quoted ''name'') \<and>
    includesStr (message (ExercisesMissingName hs)) (join '', '' hs) \<and>
    includesStr (message (ExercisesMissingCategory hs)) (quoted ''category'') \<and>
    includesStr (message (ExercisesMissingCategory hs)) (join '', '' hs) \<and>
    includesStr (message WorkoutsMissingDate) (quoted ''date'') \<and>
    includesStr (message WorkoutsMissingExerciseName) (quoted ''exerciseName'') \<and>
    includesStr (message WorkoutsMissingReps) (quoted ''reps'') \<and>
    includesStr (message WorkoutsMissingSetNumber) (quoted ''setNumber'')"
proof -
  have ex: "parseExercisesCSV csvContent =
      (if resolveIndex ExName (headerRow header) = - 1
       then Inl (ExercisesMissingName (headerRow header))
       else if resolveIndex ExCategory (headerRow header) = - 1
       then Inl (ExercisesMissingCategory (headerRow header))
       else Inr (List.map_filter
                  (exerciseRow (resolveIndex ExName (headerRow header))
                     (resolveIndex ExDescription (headerRow header))
                     (resolveIndex ExCategory (headerRow header))) (row # rows)))"
    using assms by (simp add: parseExercisesCSV_def Let_def)
  have wk1: "resolveIndex WkDate (headerRow header) = - 1 \<Longrightarrow>
      parseWorkoutsCSV P csvContent exercises = Inl WorkoutsMissingDate"
    using assms by (simp add: parseWorkoutsCSV_def Let_def workoutColumns_def)
  have wk2: "resolveIndex WkDate (headerRow header) \<noteq> - 1 \<Longrightarrow>
      resolveIndex WkExerciseName (headerRow header) = - 1 \<Longrightarrow>
      parseWorkoutsCSV P csvContent exercises = Inl WorkoutsMissingExerciseName"
    using assms by (simp add: parseWorkoutsCSV_def Let_def workoutColumns_def)
  have wk3: "resolveIndex WkDate (headerRow header) \<noteq> - 1 \<Longrightarrow>
      resolveIndex WkExerciseName (headerRow header) \<noteq> - 1 \<Longrightarrow>
      resolveIndex WkReps (headerRow header) = - 1 \<Longrightarrow>
      parseWorkoutsCSV P csvContent exercises = Inl WorkoutsMissingReps"
    using assms by (simp add: parseWorkoutsCSV_def Let_def workoutColumns_def)
  have wk4: "resolveIndex WkDate (headerRow header) \<noteq> - 1 \<Longrightarrow>
      resolveIndex WkExerciseName (headerRow header) \<noteq> - 1 \<Longrightarrow>
      resolveIndex WkReps (headerRow header) \<noteq> - 1 \<Longrightarrow>
      resolveIndex WkSetNumber (headerRow header) = - 1 \<Longrightarrow>
      parseWorkoutsCSV P csvContent exercises = Inl WorkoutsMissingSetNumber"
    using assms by (simp add: parseWorkoutsCSV_def Let_def workoutColumns_def)
  have m1: "includesStr (message (ExercisesMissingName hs)) (quoted ''name'')"
    unfolding message.simps by (rule includesStr_middle)
  have m2: "includesStr (message (ExercisesMissingName hs)) (join '', '' hs)"
    unfolding message.simps append_assoc [symmetric] by (rule includesStr_end)
  have m3: "includesStr (message (ExercisesMissingCategory hs)) (quoted ''category'')"
    unfolding message.simps by (rule includesStr_middle)
  have m4: "includesStr (message (ExercisesMissingCategory hs)) (join '', '' hs)"
    unfolding message.simps append_assoc [symmetric] by (rule includesStr_end)
  have m5: "includesStr (message WorkoutsMissingDate) (quoted ''date'')"
    unfolding message.simps by (rule includesStr_middle)
  have m6: "includesStr (message WorkoutsMissingExerciseName) (quoted ''exerciseName'')"
    unfolding message.simps by (rule includesStr_middle)
  have m7: "includesStr (message WorkoutsMissingReps) (quoted ''reps'')"
    unfolding message.simps by (rule includesStr_middle)
  have m8: "includesStr (message WorkoutsMissingSetNumber) (quoted ''setNumber'')"
    unfolding message.simps by (rule includesStr_middle)
  show ?thesis
    using ex wk1 wk2 wk3 wk4 m1 m2 m3 m4 m5 m6 m7 m8 by simp
qed

theorem missing_required_column_witness:
  "parseExercisesCSV (''exercise,notes'' @ [CHR 0x0A] @ ''Squats,heavy'') =
     Inl (ExercisesMissingCategory [''exercise'', ''notes'']) \<and>
   message (ExercisesMissingCategory [''exercise'', ''notes'']) =
     ''CSV must have a '' @ quoted ''category'' @ '' column. Found headers: exercise, notes'' \<and>
   parseWorkoutsCSV samplePlatform (''date,exercise,reps'' @ [CHR 0x0A] @ ''2024-01-15,Squats,10'') [] =
     Inl WorkoutsMissingSetNumber"
proof -
  let ?a = "''exercise,notes'' @ [CHR 0x0A] @ ''Squats,heavy''"
  let ?b = "''date,exercise,reps'' @ [CHR 0x0A] @ ''2024-01-15,Squats,10''"
  have sa: "split CHR 0x0A (trim ?a) = ''exercise,notes'' # ''Squats,heavy'' # []"
    by code_simp
  have ha: "headerRow ''exercise,notes'' = [''exercise'', ''notes'']"
    by code_simp
  have ia: "resolveIndex ExName (headerRow ''exercise,notes'') \<noteq> - 1 \<and>
            resolveIndex ExCategory (headerRow ''exercise,notes'') = - 1"
    by code_simp
  have sb: "split CHR 0x0A (trim ?b) = ''date,exercise,reps'' # ''2024-01-15,Squats,10'' # []"
    by code_simp
  have ib: "resolveIndex WkDate (headerRow ''date,exercise,reps'') \<noteq> - 1 \<and>
            resolveIndex WkExerciseName (headerRow ''date,exercise,reps'') \<noteq> - 1 \<and>
            resolveIndex WkReps (headerRow ''date,exercise,reps'') \<noteq> - 1 \<and>
            resolveIndex WkSetNumber (headerRow ''date,exercise,reps'') = - 1"
    by code_simp
  have 1: "parseExercisesCSV ?a = Inl (ExercisesMissingCategory [''exercise'', ''notes''])"
    using missing_required_column [OF sa] ia ha by simp
  have 2: "message (ExercisesMissingCategory [''exercise'', ''notes'']) =
     ''CSV must have a '' @ quoted ''category'' @ '' column. Found headers: exercise, notes''"
    by simp
  have 3: "parseWorkoutsCSV samplePlatform ?b [] = Inl WorkoutsMissingSetNumber"
    using missing_required_column [OF sb] ib by simp
  from 1 2 3 show ?thesis by (intro conjI)
qed

text \<open>
  Claim C7 as stated fails for the workout importer: its message for a missing date
  column is a fixed text that holds none of the headers found.
\<close>

theorem workout_error_omits_headers:
  "parseWorkoutsCSV samplePlatform
     (''when,exercise,set,reps'' @ [CHR 0x0A] @ ''2024-01-15,Squats,1,10'') [] =
     Inl WorkoutsMissingDate \<and>
   headerRow ''when,exercise,set,reps'' = [''when'', ''exercise'', ''set'', ''reps''] \<and>
   message WorkoutsMissingDate = ''CSV must have a '' @ quoted ''date'' @ '' column'' \<and>
   \<not> includesStr (message WorkoutsMissingDate) ''when'' \<and>
   \<not> includesStr (message WorkoutsMissingDate) (join '', '' [''when'', ''exercise'', ''set'', ''reps''])"
  by code_simp

section \<open>The loop over the data rows\<close>


lemma cell_unresolved: "cell values (- 1) = None"
  by (simp add: cell_def)

lemma truthy_None [simp]: "\<not> truthy None"
  by (simp add: truthy_def)

lemma truthy_Some [simp]: "truthy (Some s) \<longleftrightarrow> s \<noteq> []"
  by (simp add: truthy_def)

lemma checkReps_refused: "repsRefused s \<Longrightarrow> checkReps s i = Inl (InvalidReps s (i + 1))"
  by (auto simp: checkReps_def repsRefused_def split: option.splits)

lemma checkReps_accepted: "\<not> repsRefused s \<Longrightarrow> \<exists>r. checkReps s i = Inr r \<and> parseInt s = Some r"
  by (auto simp: checkReps_def repsRefused_def split: option.splits)

lemma checkSetNumber_refused:
  "setNumberRefused s \<Longrightarrow> checkSetNumber s i = Inl (InvalidSetNumber s (i + 1))"
  by (auto simp: checkSetNumber_def setNumberRefused_def split: option.splits)


text \<open>A row that fails the completeness check is skipped.\<close>

lemma processRow_incomplete: "\<not> completeRow cols l \<Longrightarrow> processRow P cols i l st = Inr st"
  by (auto simp: completeRow_def processRow_def Let_def)

text \<open>A complete row goes through the three checks and is then added to its day.\<close>

lemma processRow_complete:
  assumes "completeRow cols l"
  shows "processRow P cols i l st =
    (let values = parseCSVLine (trim l);
         dateStr = cell values (dateIndex cols);
         name = cell values (exerciseNameIndex cols);
         repsStr = cell values (repsIndex cols);
         setNumberStr = cell values (setNumberIndex cols)
     in case dateKey P (strOf dateStr) of
          None \<Rightarrow> Inl (InvalidDate (strOf dateStr) (i + 1))
        | Some key \<Rightarrow>
            (case checkReps (strOf repsStr) i of
               Inl e \<Rightarrow> Inl e
             | Inr r \<Rightarrow>
                 (case checkSetNumber (strOf setNumberStr) i of
                    Inl e \<Rightarrow> Inl e
                  | Inr n \<Rightarrow>
                      let (ref, st1) = findOrCreateExercise P cols values (strOf name) st;
                          s = \<lparr>exerciseId = ex_id (heap st1 ! ref), reps = r,
                               setNotes = (if 0 \<le> setNotesIndex cols
                                           then cell values (setNotesIndex cols) else None),
                               setNumber = n, exerciseName = strOf name\<rparr>;
                          workoutNotes = (if 0 \<le> workoutNotesIndex cols
                                          then cell values (workoutNotesIndex cols) else None)
                      in Inr (st1\<lparr>workoutMap :=
                                    addToDay key s workoutNotes (workoutMap st1)\<rparr>))))"
  using assms by (simp add: completeRow_def processRow_def Let_def)


lemma processRow_invalid_date:
  assumes "completeRow cols l"
    and "dateKey P (strOf (cell (parseCSVLine (trim l)) (dateIndex cols))) = None"
  shows "processRow P cols i l st =
     Inl (InvalidDate (strOf (cell (parseCSVLine (trim l)) (dateIndex cols))) (i + 1))"
  using assms(2) unfolding processRow_complete [OF assms(1)] Let_def by simp

lemma processRow_reps_refused:
  assumes "completeRow cols l"
    and "dateKey P (strOf (cell (parseCSVLine (trim l)) (dateIndex cols))) = Some key"
    and "repsRefused (strOf (cell (parseCSVLine (trim l)) (repsIndex cols)))"
  shows "processRow P cols i l st =
     Inl (InvalidReps (strOf (cell (parseCSVLine (trim l)) (repsIndex cols))) (i + 1))"
  using assms(2,3) unfolding processRow_complete [OF assms(1)] Let_def
  by (simp add: checkReps_refused)

lemma processRow_setNumber_refused:
  assumes "completeRow cols l"
    and "dateKey P (strOf (cell (parseCSVLine (trim l)) (dateIndex cols))) = Some key"
    and "\<not> repsRefused (strOf (cell (parseCSVLine (trim l)) (repsIndex cols)))"
    and "setNumberRefused (strOf (cell (parseCSVLine (trim l)) (setNumberIndex cols)))"
  shows "processRow P cols i l st =
     Inl (InvalidSetNumber (strOf (cell (parseCSVLine (trim l)) (setNumberIndex cols))) (i + 1))"
proof -
  from checkReps_accepted [OF assms(3)] obtain r where
    "checkReps (strOf (cell (parseCSVLine (trim l)) (repsIndex cols))) i = Inr r"
    by blast
  with assms(2,4) show ?thesis
    unfolding processRow_complete [OF assms(1)] Let_def
    by (simp add: checkSetNumber_refused)
qed



text \<open>The loop stops at the first row that throws.\<close>

lemma processRows_error:
  assumes "processRows P cols i ls st = Inl e"
  shows "\<exists>ls1 l ls2 st1. ls = ls1 @ l # ls2 \<and> processRows P cols i ls1 st = Inr st1 \<and>
           processRow P cols (i + length ls1) l st1 = Inl e"
  using assms
proof (induction ls arbitrary: i st)
  case Nil
  then show ?case by simp
next
  case (Cons l ls)
  show ?case
  proof (cases "processRow P cols i l st")
    case (Inl e')
    with Cons.prems have "e' = e" by simp
    with Inl have "l # ls = [] @ l # ls \<and> processRows P cols i [] st = Inr st \<and>
        processRow P cols (i + length ([] :: string list)) l st = Inl e"
      by simp
    then show ?thesis by blast
  next
    case (Inr st1)
    with Cons.prems have "processRows P cols (Suc i) ls st1 = Inl e" by simp
    from Cons.IH [OF this] obtain ls1 l' ls2 st2 where
      a: "ls = ls1 @ l' # ls2" "processRows P cols (Suc i) ls1 st1 = Inr st2"
         "processRow P cols (Suc i + length ls1) l' st2 = Inl e"
      by blast
    from a Inr have "l # ls = (l # ls1) @ l' # ls2 \<and> processRows P cols i (l # ls1) st = Inr st2 \<and>
        processRow P cols (i + length (l # ls1)) l' st2 = Inl e"
      by simp
    then show ?thesis by blast
  qed
qed






section \<open>Rows with missing cells\<close>










section \<open>New exercises\<close>

lemma categoryOfName_categoryName: "categoryOfName (categoryName c) = Some c"
  by (cases c) (simp_all add: categoryOfName_def validCategories_def)

lemma categoryOfName_Some: "categoryOfName s = Some c \<Longrightarrow> s = categoryName c"
  by (auto simp: categoryOfName_def validCategories_def split: if_splits)

lemma categoryOfName_None: "categoryOfName s = None \<longleftrightarrow> (\<forall>c. s \<noteq> categoryName c)"
proof
  assume "categoryOfName s = None"
  then show "\<forall>c. s \<noteq> categoryName c"
    using categoryOfName_categoryName by (metis option.distinct(1))
next
  assume "\<forall>c. s \<noteq> categoryName c"
  then show "categoryOfName s = None"
    using categoryOfName_Some by (cases "categoryOfName s") auto
qed

lemma map_of_update_same: "map_of (AList.update k v al) k = Some v"
  by (simp add: update_conv')

text \<open>
  Claim C6, as the code has it.  A row whose lower-cased exercise name is in the working
  map takes the exercise found there and changes nothing.  Otherwise a new exercise is
  allocated behind the heap, with the next fresh identifier and the name of the row,
  pushed to \<open>newExercises\<close> and registered under the lower-cased name, so that a later
  row with the same name in any letter case finds it.  Its category is the one whose
  canonical name the trimmed, lower-cased category cell is; it is full-body when the
  cell is anything else (a synonym too), or when the column or the cell is missing.
\<close>

theorem findOrCreateExercise_new:
  "(map_of (exerciseMap st) (toLowerCase name) = Some ref \<longrightarrow>
      findOrCreateExercise P cols values name st = (ref, st)) \<and>
   (map_of (exerciseMap st) (toLowerCase name) = None \<longrightarrow>
      (\<exists>ex st'.
         findOrCreateExercise P cols values name st = (length (heap st), st') \<and>
         heap st' = heap st @ [ex] \<and>
         newExercises st' = newExercises st @ [length (heap st)] \<and>
         ex_id ex = randomUUID P (uuidCount st) \<and> ex_name ex = name \<and>
         ex_createdAt ex = now P (uuidCount st) \<and>
         uuidCount st' = Suc (uuidCount st) \<and>
         (\<forall>c. map_option toLowerCase (cell values (exerciseCategoryIndex cols))
                = Some (categoryName c) \<longrightarrow> ex_category ex = c) \<and>
         ((\<forall>c. map_option toLowerCase (cell values (exerciseCategoryIndex cols))
                \<noteq> Some (categoryName c)) \<longrightarrow> ex_category ex = FullBody) \<and>
         (\<forall>name' values'. toLowerCase name' = toLowerCase name \<longrightarrow>
            findOrCreateExercise P cols values' name' st' = (length (heap st), st'))))"
proof (intro conjI impI)
  assume "map_of (exerciseMap st) (toLowerCase name) = Some ref"
  then show "findOrCreateExercise P cols values name st = (ref, st)"
    by (simp add: findOrCreateExercise_def)
next
  assume none: "map_of (exerciseMap st) (toLowerCase name) = None"
  define raw where "raw = map_option toLowerCase (cell values (exerciseCategoryIndex cols))"
  define category where "category =
     (if 0 \<le> exerciseCategoryIndex cols then
        (case raw of None \<Rightarrow> FullBody
         | Some categoryRaw \<Rightarrow>
             (case categoryOfName categoryRaw of Some c \<Rightarrow> c | None \<Rightarrow> FullBody))
      else FullBody)"
  define ex where "ex = \<lparr>ex_id = randomUUID P (uuidCount st), ex_name = name,
     ex_category = category, ex_createdAt = now P (uuidCount st)\<rparr>"
  define st' where "st' = st\<lparr>heap := heap st @ [ex],
     exerciseMap := AList.update (toLowerCase name) (length (heap st)) (exerciseMap st),
     newExercises := newExercises st @ [length (heap st)],
     uuidCount := Suc (uuidCount st)\<rparr>"
  have run: "findOrCreateExercise P cols values name st = (length (heap st), st')"
    using none by (simp add: findOrCreateExercise_def Let_def st'_def ex_def category_def raw_def)
  have idx: "0 \<le> exerciseCategoryIndex cols" if "raw = Some s" for s
    using that by (auto simp: raw_def cell_def split: if_splits)
  have cat1: "ex_category ex = c" if "raw = Some (categoryName c)" for c
    using that idx [OF that] by (simp add: ex_def category_def categoryOfName_categoryName)
  have cat2: "ex_category ex = FullBody" if "\<forall>c. raw \<noteq> Some (categoryName c)"
  proof (cases raw)
    case None
    then show ?thesis by (simp add: ex_def category_def)
  next
    case (Some s)
    with that have "\<forall>c. s \<noteq> categoryName c" by auto
    then have "categoryOfName s = None" by (simp add: categoryOfName_None)
    with Some show ?thesis by (simp add: ex_def category_def)
  qed
  have found: "findOrCreateExercise P cols values' name' st' = (length (heap st), st')"
    if "toLowerCase name' = toLowerCase name" for name' values'
    using that by (simp add: findOrCreateExercise_def st'_def map_of_update_same)
  show "\<exists>ex st'.
         findOrCreateExercise P cols values name st = (length (heap st), st') \<and>
         heap st' = heap st @ [ex] \<and>
         newExercises st' = newExercises st @ [length (heap st)] \<and>
         ex_id ex = randomUUID P (uuidCount st) \<and> ex_name ex = name \<and>
         ex_createdAt ex = now P (uuidCount st) \<and>
         uuidCount st' = Suc (uuidCount st) \<and>
         (\<forall>c. map_option toLowerCase (cell values (exerciseCategoryIndex cols))
                = Some (categoryName c) \<longrightarrow> ex_category ex = c) \<and>
         ((\<forall>c. map_option toLowerCase (cell values (exerciseCategoryIndex cols))
                \<noteq> Some (categoryName c)) \<longrightarrow> ex_category ex = FullBody) \<and>
         (\<forall>name' values'. toLowerCase name' = toLowerCase name \<longrightarrow>
            findOrCreateExercise P cols values' name' st' = (length (heap st), st'))"
  proof (intro exI [of _ ex] exI [of _ st'] conjI allI impI)
    show "findOrCreateExercise P cols values name st = (length (heap st), st')" by (rule run)
    show "heap st' = heap st @ [ex]" by (simp add: st'_def)
    show "newExercises st' = newExercises st @ [length (heap st)]" by (simp add: st'_def)
    show "ex_id ex = randomUUID P (uuidCount st)" by (simp add: ex_def)
    show "ex_name ex = name" by (simp add: ex_def)
    show "ex_createdAt ex = now P (uuidCount st)" by (simp add: ex_def)
    show "uuidCount st' = Suc (uuidCount st)" by (simp add: st'_def)
    show "ex_category ex = c"
      if "map_option toLowerCase (cell values (exerciseCategoryIndex cols)) = Some (categoryName c)"
      for c using that cat1 by (simp add: raw_def)
    show "ex_category ex = FullBody"
      if "\<forall>c. map_option toLowerCase (cell values (exerciseCategoryIndex cols)) \<noteq> Some (categoryName c)"
      using that cat2 by (simp add: raw_def)
    show "findOrCreateExercise P cols values' name' st' = (length (heap st), st')"
      if "toLowerCase name' = toLowerCase name" for name' values'
      using that by (rule found)
  qed
qed

theorem findOrCreateExercise_new_witness:
  "findOrCreateExercise samplePlatform
     (workoutColumns [''date'', ''exercise'', ''exercisecategory'', ''set'', ''reps''])
     [''2024-01-16'', ''PLANK'', ''abs'', ''1'', ''30''] ''PLANK''
     (initialState [\<lparr>ex_id = ''e1'', ex_name = ''Plank'', ex_category = Abs, ex_createdAt = 7\<rparr>])
   = (0, initialState [\<lparr>ex_id = ''e1'', ex_name = ''Plank'', ex_category = Abs,
                        ex_createdAt = 7\<rparr>]) \<and>
   map ex_category (heap (snd (findOrCreateExercise samplePlatform
     (workoutColumns [''date'', ''exercise'', ''exercisecategory'', ''set'', ''reps''])
     [''2024-01-16'', ''Plank'', '' Abs'', ''1'', ''30''] ''Plank'' (initialState [])))) = [Abs] \<and>
   map ex_category (heap (snd (findOrCreateExercise samplePlatform
     (workoutColumns [''date'', ''exercise'', ''exercisecategory'', ''set'', ''reps''])
     [''2024-01-16'', ''Plank'', ''core'', ''1'', ''30''] ''Plank'' (initialState [])))) = [FullBody]"
proof -
  let ?cols = "workoutColumns [''date'', ''exercise'', ''exercisecategory'', ''set'', ''reps'']"
  let ?st1 = "initialState [\<lparr>ex_id = ''e1'', ex_name = ''Plank'', ex_category = Abs,
     ex_createdAt = 7\<rparr>]"
  let ?v2 = "[''2024-01-16'', ''Plank'', '' Abs'', ''1'', ''30'']"
  let ?v3 = "[''2024-01-16'', ''Plank'', ''core'', ''1'', ''30'']"
  have f: "map_of (exerciseMap ?st1) (toLowerCase ''PLANK'') = Some 0"
    by code_simp
  with findOrCreateExercise_new [of ?st1 "''PLANK''" 0 samplePlatform ?cols
      "[''2024-01-16'', ''PLANK'', ''abs'', ''1'', ''30'']"]
  have 1: "findOrCreateExercise samplePlatform ?cols
     [''2024-01-16'', ''PLANK'', ''abs'', ''1'', ''30''] ''PLANK'' ?st1 = (0, ?st1)"
    by blast
  have n: "map_of (exerciseMap (initialState [])) (toLowerCase ''Plank'') = None"
    by code_simp
  have h0: "heap (initialState []) = []"
    by (simp add: initialState_def)
  have c2: "map_option toLowerCase (cell ?v2 (exerciseCategoryIndex ?cols)) = Some (categoryName Abs)"
    by code_simp
  from findOrCreateExercise_new [of "initialState []" "''Plank''" 0 samplePlatform ?cols ?v2] n
  obtain ex st' where
    a: "findOrCreateExercise samplePlatform ?cols ?v2 ''Plank'' (initialState []) =
          (length (heap (initialState [])), st')"
       "heap st' = heap (initialState []) @ [ex]"
       "\<forall>c. map_option toLowerCase (cell ?v2 (exerciseCategoryIndex ?cols)) = Some (categoryName c)
            \<longrightarrow> ex_category ex = c"
    by blast
  from a(3) c2 have "ex_category ex = Abs" by blast
  with a(1,2) h0 have 2: "map ex_category (heap (snd (findOrCreateExercise samplePlatform ?cols ?v2
      ''Plank'' (initialState [])))) = [Abs]"
    by simp
  have c3: "map_option toLowerCase (cell ?v3 (exerciseCategoryIndex ?cols)) = Some ''core''"
    by code_simp
  have c3': "\<forall>c. map_option toLowerCase (cell ?v3 (exerciseCategoryIndex ?cols)) \<noteq> Some (categoryName c)"
  proof
    fix c show "map_option toLowerCase (cell ?v3 (exerciseCategoryIndex ?cols)) \<noteq> Some (categoryName c)"
      unfolding c3 by (cases c) simp_all
  qed
  from findOrCreateExercise_new [of "initialState []" "''Plank''" 0 samplePlatform ?cols ?v3] n
  obtain ex3 st3 where
    b: "findOrCreateExercise samplePlatform ?cols ?v3 ''Plank'' (initialState []) =
          (length (heap (initialState [])), st3)"
       "heap st3 = heap (initialState []) @ [ex3]"
       "(\<forall>c. map_option toLowerCase (cell ?v3 (exerciseCategoryIndex ?cols)) \<noteq> Some (categoryName c))
            \<longrightarrow> ex_category ex3 = FullBody"
    by blast
  from b(3) c3' have "ex_category ex3 = FullBody" by blast
  with b(1,2) h0 have 3: "map ex_category (heap (snd (findOrCreateExercise samplePlatform ?cols ?v3
      ''Plank'' (initialState [])))) = [FullBody]"
    by simp
  from 1 2 3 show ?thesis by (intro conjI)
qed

text \<open>
  Claim C6 as stated fails: the workout importer does not consult the synonym table.  A
  new exercise whose category cell is \<open>core\<close> gets full-body, although the category
  normalizer maps \<open>core\<close> to abs.
\<close>

theorem workout_category_ignores_synonyms:
  "parseWorkoutsCSV samplePlatform
     (''date,exercise,exerciseCategory,set,reps'' @ [CHR 0x0A] @ ''2024-01-16,Plank,core,1,30'') [] =
     Inr \<lparr>workouts =
            [\<lparr>w_id = ''id-1'', w_date = ''Tue Jan 16 2024'',
              w_sets = [\<lparr>ws_id = ''id-2'', ws_exerciseId = ''id-0'', ws_reps = Finite 30,
                         ws_notes = None\<rparr>],
              w_notes = None\<rparr>],
          newExercisesOut =
            [\<lparr>ex_id = ''id-0'', ex_name = ''Plank'', ex_category = FullBody, ex_createdAt = 0\<rparr>],
          heapAfter =
            [\<lparr>ex_id = ''id-0'', ex_name = ''Plank'', ex_category = FullBody, ex_createdAt = 0\<rparr>]\<rparr> \<and>
   normalizeCategory ''core'' = Abs"
  by code_simp

section \<open>Reps and set numbers\<close>




section \<open>References stay inside the heap\<close>

text \<open>
  Every reference in \<open>exerciseMap\<close> points into the heap, at the start of a call and after
  every row, so the model never reads the heap out of range.
\<close>

lemma set_update_subset: "set (AList.update k v al) \<subseteq> insert (k, v) (set al)"
  by (induction al) auto

lemma fold_update_refs:
  assumes "\<forall>p \<in> set al. snd p < n" "\<forall>ref \<in> set refs. ref < n"
  shows "\<forall>p \<in> set (fold (\<lambda>ref m. AList.update (key ref) ref m) refs al). snd p < n"
  using assms
proof (induction refs arbitrary: al)
  case Nil
  then show ?case by simp
next
  case (Cons r refs)
  have "\<forall>p \<in> set (AList.update (key r) r al). snd p < n"
    using Cons.prems set_update_subset [of "key r" r al] by auto
  with Cons show ?case by simp
qed

lemma initialState_refs:
  "\<forall>p \<in> set (exerciseMap (initialState exercises)). snd p < length (heap (initialState exercises))"
  unfolding initialState_def
  using fold_update_refs [of "[]" "length exercises" "[0 ..< length exercises]"
      "\<lambda>ref. toLowerCase (ex_name (exercises ! ref))"]
  by simp

lemma findOrCreateExercise_refs:
  assumes "\<forall>p \<in> set (exerciseMap st). snd p < length (heap st)"
    and "findOrCreateExercise P cols values name st = (ref, st')"
  shows "ref < length (heap st') \<and> (\<forall>p \<in> set (exerciseMap st'). snd p < length (heap st'))"
proof (cases "map_of (exerciseMap st) (toLowerCase name)")
  case None
  with assms(2) have st': "ref = length (heap st)" "length (heap st') = Suc (length (heap st))"
      "exerciseMap st' = AList.update (toLowerCase name) (length (heap st)) (exerciseMap st)"
    by (auto simp: findOrCreateExercise_def Let_def)
  have "\<forall>p \<in> set (exerciseMap st'). snd p < length (heap st')"
    unfolding st'
    using assms(1) set_update_subset [of "toLowerCase name" "length (heap st)" "exerciseMap st"]
    by (auto simp: less_Suc_eq)
  with st' show ?thesis by simp
next
  case (Some a)
  with assms(2) have "ref = a" "st' = st"
    by (auto simp: findOrCreateExercise_def)
  moreover from Some have "(toLowerCase name, a) \<in> set (exerciseMap st)"
    by (rule map_of_SomeD)
  ultimately show ?thesis using assms(1) by auto
qed

lemma processRow_refs:
  assumes "\<forall>p \<in> set (exerciseMap st). snd p < length (heap st)"
    and "processRow P cols i l st = Inr st'"
  shows "\<forall>p \<in> set (exerciseMap st'). snd p < length (heap st')"
proof (cases "completeRow cols l")
  case False
  with assms show ?thesis by (simp add: processRow_incomplete)
next
  case True
  obtain ref st1 where f: "findOrCreateExercise P cols (parseCSVLine (trim l))
      (strOf (cell (parseCSVLine (trim l)) (exerciseNameIndex cols))) st = (ref, st1)"
    by (cases "findOrCreateExercise P cols (parseCSVLine (trim l))
      (strOf (cell (parseCSVLine (trim l)) (exerciseNameIndex cols))) st")
  from assms(2) have "heap st' = heap st1 \<and> exerciseMap st' = exerciseMap st1"
    unfolding processRow_complete [OF True] Let_def f
    by (auto split: option.splits sum.splits)
  with findOrCreateExercise_refs [OF assms(1) f] show ?thesis by simp
qed

lemma processRows_refs:
  assumes "\<forall>p \<in> set (exerciseMap st). snd p < length (heap st)"
    and "processRows P cols i ls st = Inr st'"
  shows "\<forall>p \<in> set (exerciseMap st'). snd p < length (heap st')"
  using assms
proof (induction ls arbitrary: i st)
  case Nil
  then show ?case by simp
next
  case (Cons l ls)
  from Cons.prems(2) obtain st1 where
    1: "processRow P cols i l st = Inr st1" and 2: "processRows P cols (Suc i) ls st1 = Inr st'"
    by (auto split: sum.splits)
  from processRow_refs [OF Cons.prems(1) 1] 2 show ?case by (rule Cons.IH)
qed

section \<open>The workout template\<close>

lemma template_split:
  "split CHR 0x0A (trim generateWorkoutCSVTemplate) =
     join '','' workoutTemplateHeaders
       # map (\<lambda>row. join '','' (map quoted row)) workoutTemplateExamples"
  by code_simp

lemma template_columns:
  "workoutColumns (headerRow (join '','' workoutTemplateHeaders)) =
     \<lparr>dateIndex = 0, exerciseNameIndex = 1, exerciseCategoryIndex = 2, setNumberIndex = 3,
      repsIndex = 4, setNotesIndex = 5, workoutNotesIndex = 6\<rparr>"
  by code_simp

lemma template_tokens:
  "\<forall>row \<in> set workoutTemplateExamples.
     trim (join '','' (map quoted row)) \<noteq> [] \<and>
     parseCSVLine (trim (join '','' (map quoted row))) = row \<and> map trim row = row"
  by code_simp

lemma template_lower:
  "toLowerCase ''Push-ups'' = ''push-ups''" "toLowerCase ''Squats'' = ''squats''"
  "toLowerCase ''Plank'' = ''plank''" "toLowerCase ''arms'' = ''arms''"
  "toLowerCase ''legs'' = ''legs''" "toLowerCase ''abs'' = ''abs''"
  by code_simp+

lemma template_numbers:
  "parseInt ''1'' = Some (Finite 1)" "parseInt ''2'' = Some (Finite 2)" "parseInt ''3'' = Some (Finite 3)"
  "parseInt ''15'' = Some (Finite 15)" "parseInt ''12'' = Some (Finite 12)" "parseInt ''10'' = Some (Finite 10)"
  "parseInt ''20'' = Some (Finite 20)" "parseInt ''18'' = Some (Finite 18)" "parseInt ''30'' = Some (Finite 30)"
  "parseInt ''25'' = Some (Finite 25)"
  by code_simp+

lemma template_categories:
  "categoryOfName ''arms'' = Some Arms" "categoryOfName ''legs'' = Some Legs"
  "categoryOfName ''abs'' = Some Abs"
  by code_simp+

lemmas template_rows = template_tokens [unfolded workoutTemplateExamples_def, simplified]

text \<open>
  What holds on every platform that reads \<open>2024-01-15\<close> and \<open>2024-01-16\<close> as two
  different days \<open>d1\<close> and \<open>d2\<close>: importing the generated workout template with an empty
  catalog succeeds and returns two workouts, the one of \<open>d1\<close> with the three sets of
  Push-ups followed by the two sets of Squats and the one of \<open>d2\<close> with the two sets of
  Plank, and the three new exercises Push-ups, Squats and Plank.
\<close>

lemma template_import:
  assumes "dateKey P ''2024-01-15'' = Some d1" and "dateKey P ''2024-01-16'' = Some d2"
    and "d1 \<noteq> d2"
  shows "parseWorkoutsCSV P generateWorkoutCSVTemplate [] =
    Inr \<lparr>workouts =
           [\<lparr>w_id = randomUUID P 3, w_date = d1,
             w_sets =
               [\<lparr>ws_id = randomUUID P 4, ws_exerciseId = randomUUID P 0, ws_reps = Finite 15,
                 ws_notes = Some ''Felt strong''\<rparr>,
                \<lparr>ws_id = randomUUID P 5, ws_exerciseId = randomUUID P 0, ws_reps = Finite 12,
                 ws_notes = Some ''Getting tired''\<rparr>,
                \<lparr>ws_id = randomUUID P 6, ws_exerciseId = randomUUID P 0, ws_reps = Finite 10,
                 ws_notes = Some ''Final set''\<rparr>,
                \<lparr>ws_id = randomUUID P 7, ws_exerciseId = randomUUID P 1, ws_reps = Finite 20,
                 ws_notes = Some ''Good form''\<rparr>,
                \<lparr>ws_id = randomUUID P 8, ws_exerciseId = randomUUID P 1, ws_reps = Finite 18,
                 ws_notes = Some ''Legs burning''\<rparr>],
             w_notes = Some ''Great morning workout''\<rparr>,
            \<lparr>w_id = randomUUID P 9, w_date = d2,
             w_sets =
               [\<lparr>ws_id = randomUUID P 10, ws_exerciseId = randomUUID P 2, ws_reps = Finite 30,
                 ws_notes = Some ''Held for 30 seconds''\<rparr>,
                \<lparr>ws_id = randomUUID P 11, ws_exerciseId = randomUUID P 2, ws_reps = Finite 25,
                 ws_notes = Some ''Shorter hold''\<rparr>],
             w_notes = Some ''Quick abs session''\<rparr>],
         newExercisesOut =
           [\<lparr>ex_id = randomUUID P 0, ex_name = ''Push-ups'', ex_category = Arms,
             ex_createdAt = now P 0\<rparr>,
            \<lparr>ex_id = randomUUID P 1, ex_name = ''Squats'', ex_category = Legs,
             ex_createdAt = now P 1\<rparr>,
            \<lparr>ex_id = randomUUID P 2, ex_name = ''Plank'', ex_category = Abs,
             ex_createdAt = now P 2\<rparr>],
         heapAfter =
           [\<lparr>ex_id = randomUUID P 0, ex_name = ''Push-ups'', ex_category = Arms,
             ex_createdAt = now P 0\<rparr>,
            \<lparr>ex_id = randomUUID P 1, ex_name = ''Squats'', ex_category = Legs,
             ex_createdAt = now P 1\<rparr>,
            \<lparr>ex_id = randomUUID P 2, ex_name = ''Plank'', ex_category = Abs,
             ex_createdAt = now P 2\<rparr>]\<rparr>"
  using assms
  unfolding parseWorkoutsCSV_def template_split
  by (simp add: template_columns workoutTemplateExamples_def template_rows
      processRow_def Let_def cell_def truthy_def strOf_def checkReps_def checkSetNumber_def
      template_lower template_numbers template_categories findOrCreateExercise_def
      addToDay_def initialState_def orderedSets_def exerciseGroups_def addToGroup_def
      toWorkout_def toWorkoutSet_def less_number_def eval_nat_numeral)

text \<open>
  Claim C8, on a platform west of UTC.  The import of the template succeeds, with the
  two workouts, their sets and the three new exercises as claimed, but the workouts are
  dated 14 and 15 January 2024, a day before the dates 2024-01-15 and 2024-01-16 of
  their rows: the date-only string is read as midnight UTC and the day key is taken
  from the local day of that instant.
\<close>

theorem template_dated_a_day_early:
  "parseWorkoutsCSV westPlatform generateWorkoutCSVTemplate [] =
    Inr \<lparr>workouts =
           [\<lparr>w_id = ''id-3'', w_date = ''Sun Jan 14 2024'',
             w_sets =
               [\<lparr>ws_id = ''id-4'', ws_exerciseId = ''id-0'', ws_reps = Finite 15,
                 ws_notes = Some ''Felt strong''\<rparr>,
                \<lparr>ws_id = ''id-5'', ws_exerciseId = ''id-0'', ws_reps = Finite 12,
                 ws_notes = Some ''Getting tired''\<rparr>,
                \<lparr>ws_id = ''id-6'', ws_exerciseId = ''id-0'', ws_reps = Finite 10,
                 ws_notes = Some ''Final set''\<rparr>,
                \<lparr>ws_id = ''id-7'', ws_exerciseId = ''id-1'', ws_reps = Finite 20,
                 ws_notes = Some ''Good form''\<rparr>,
                \<lparr>ws_id = ''id-8'', ws_exerciseId = ''id-1'', ws_reps = Finite 18,
                 ws_notes = Some ''Legs burning''\<rparr>],
             w_notes = Some ''Great morning workout''\<rparr>,
            \<lparr>w_id = ''id-9'', w_date = ''Mon Jan 15 2024'',
             w_sets =
               [\<lparr>ws_id = ''id-10'', ws_exerciseId = ''id-2'', ws_reps = Finite 30,
                 ws_notes = Some ''Held for 30 seconds''\<rparr>,
                \<lparr>ws_id = ''id-11'', ws_exerciseId = ''id-2'', ws_reps = Finite 25,
                 ws_notes = Some ''Shorter hold''\<rparr>],
             w_notes = Some ''Quick abs session''\<rparr>],
         newExercisesOut =
           [\<lparr>ex_id = ''id-0'', ex_name = ''Push-ups'', ex_category = Arms, ex_createdAt = 0\<rparr>,
            \<lparr>ex_id = ''id-1'', ex_name = ''Squats'', ex_category = Legs, ex_createdAt = 0\<rparr>,
            \<lparr>ex_id = ''id-2'', ex_name = ''Plank'', ex_category = Abs, ex_createdAt = 0\<rparr>],
         heapAfter =
           [\<lparr>ex_id = ''id-0'', ex_name = ''Push-ups'', ex_category = Arms, ex_createdAt = 0\<rparr>,
            \<lparr>ex_id = ''id-1'', ex_name = ''Squats'', ex_category = Legs, ex_createdAt = 0\<rparr>,
            \<lparr>ex_id = ''id-2'', ex_name = ''Plank'', ex_category = Abs, ex_createdAt = 0\<rparr>]\<rparr>"
  by code_simp

text \<open>On the platform in UTC the same import dates the workouts as their rows are dated.\<close>

lemma template_dated_in_utc:
  "map w_date (workouts (projr (parseWorkoutsCSV samplePlatform generateWorkoutCSVTemplate []))) =
     [''Mon Jan 15 2024'', ''Tue Jan 16 2024'']"
proof -
  have a: "dateKey samplePlatform ''2024-01-15'' = Some ''Mon Jan 15 2024''"
    by (simp add: samplePlatform_def sampleDateKey_def)
  have b: "dateKey samplePlatform ''2024-01-16'' = Some ''Tue Jan 16 2024''"
    by (simp add: samplePlatform_def sampleDateKey_def)
  have c: "''Mon Jan 15 2024'' \<noteq> ''Tue Jan 16 2024''"
    by simp
  from template_import [OF a b c] show ?thesis
    by simp
qed

section \<open>The caller's catalog\<close>

text \<open>
  A state is an extension of another one when its heap is the other heap followed by new
  objects, and \<open>newExercises\<close> has grown by the references of exactly these objects.
\<close>

lemma findOrCreateExercise_extends:
  assumes "findOrCreateExercise P cols values name st = (ref, st')"
  shows "\<exists>new. heap st' = heap st @ new \<and>
           newExercises st' =
             newExercises st @ [length (heap st) ..< length (heap st) + length new]"
proof (cases "map_of (exerciseMap st) (toLowerCase name)")
  case None
  with assms show ?thesis
    by (auto simp: findOrCreateExercise_def Let_def)
next
  case (Some a)
  with assms show ?thesis
    by (auto simp: findOrCreateExercise_def)
qed

lemma processRow_extends:
  assumes "processRow P cols i l st = Inr st'"
  shows "\<exists>new. heap st' = heap st @ new \<and>
           newExercises st' =
             newExercises st @ [length (heap st) ..< length (heap st) + length new]"
proof (cases "completeRow cols l")
  case False
  with assms have "st' = st" by (simp add: processRow_incomplete)
  then show ?thesis by simp
next
  case True
  obtain ref st1 where f: "findOrCreateExercise P cols (parseCSVLine (trim l))
      (strOf (cell (parseCSVLine (trim l)) (exerciseNameIndex cols))) st = (ref, st1)"
    by (cases "findOrCreateExercise P cols (parseCSVLine (trim l))
      (strOf (cell (parseCSVLine (trim l)) (exerciseNameIndex cols))) st")
  from assms have "heap st' = heap st1 \<and> newExercises st' = newExercises st1"
    unfolding processRow_complete [OF True] Let_def f
    by (auto split: option.splits sum.splits)
  with findOrCreateExercise_extends [OF f] show ?thesis by simp
qed

lemma upt_append_range: "[a ..< a + m] @ [a + m ..< a + m + n] = [a ..< a + (m + n)]"
  using upt_add_eq_append [of a "a + m" n] by (simp add: add.assoc)

lemma processRows_extends:
  assumes "processRows P cols i ls st = Inr st'"
  shows "\<exists>new. heap st' = heap st @ new \<and>
           newExercises st' =
             newExercises st @ [length (heap st) ..< length (heap st) + length new]"
  using assms
proof (induction ls arbitrary: i st)
  case Nil
  then show ?case by simp
next
  case (Cons l ls)
  from Cons.prems obtain st1 where
    1: "processRow P cols i l st = Inr st1" and 2: "processRows P cols (Suc i) ls st1 = Inr st'"
    by (auto split: sum.splits)
  from processRow_extends [OF 1] obtain new1 where
    a: "heap st1 = heap st @ new1"
       "newExercises st1 = newExercises st @ [length (heap st) ..< length (heap st) + length new1]"
    by blast
  from Cons.IH [OF 2] obtain new2 where
    b: "heap st' = heap st1 @ new2"
       "newExercises st' = newExercises st1 @ [length (heap st1) ..< length (heap st1) + length new2]"
    by blast
  have "heap st' = heap st @ (new1 @ new2)"
    using a b by simp
  moreover have "newExercises st' =
      newExercises st @ ([length (heap st) ..< length (heap st) + length new1] @
        [length (heap st) + length new1 ..< length (heap st) + length new1 + length new2])"
    using a b by simp
  then have "newExercises st' =
      newExercises st @ [length (heap st) ..< length (heap st) + length (new1 @ new2)]"
    unfolding upt_append_range by simp
  ultimately show ?case by blast
qed

lemma map_nth_append_range: "map ((!) (xs @ ys)) [length xs ..< length xs + length ys] = ys"
  by (rule nth_equalityI) (simp_all add: nth_append)

text \<open>
  Claim C9.  After a successful call the heap is the caller's catalog, object by object
  as it was passed in, followed by the exercises the call created, and the returned
  \<open>newExercises\<close> are exactly these created objects: no object of the catalog is
  overwritten and no new exercise takes the place of one.  A call that throws either
  throws on the header, before it has touched any object, or on a data line; the lines
  before that one have only allocated objects behind the catalog, and the line that
  throws is read in a heap that still begins with the catalog as it was passed in.
\<close>

theorem catalog_unchanged:
  "(parseWorkoutsCSV P csvContent exercises = Inr res \<longrightarrow>
      take (length exercises) (heapAfter res) = exercises \<and>
      heapAfter res = exercises @ newExercisesOut res) \<and>
   (parseWorkoutsCSV P csvContent exercises = Inl e \<longrightarrow>
      e \<in> set [TooFewLines, WorkoutsMissingDate, WorkoutsMissingExerciseName, WorkoutsMissingReps,
                WorkoutsMissingSetNumber] \<or>
      (\<exists>ls1 l ls2 st1.
         dataLines csvContent = ls1 @ l # ls2 \<and>
         processRows P (workoutColumns (headerRow (headerLine csvContent))) 1 ls1
           (initialState exercises) = Inr st1 \<and>
         processRow P (workoutColumns (headerRow (headerLine csvContent))) (1 + length ls1) l st1
           = Inl e \<and>
         take (length exercises) (heap st1) = exercises))"
proof (rule conjI; rule impI)
  assume "parseWorkoutsCSV P csvContent exercises = Inr res"
  then obtain header row rows st where
    run: "processRows P (workoutColumns (headerRow header)) 1 (row # rows) (initialState exercises)
            = Inr st"
    and res: "res = \<lparr>workouts = toWorkouts P (uuidCount st) (workoutMap st),
                     newExercisesOut = map (\<lambda>ref. heap st ! ref) (newExercises st),
                     heapAfter = heap st\<rparr>"
    by (auto simp: parseWorkoutsCSV_def Let_def split: list.splits if_splits sum.splits
        simp del: processRows.simps)
  from processRows_extends [OF run] obtain new where
    new: "heap st = exercises @ new"
         "newExercises st = [length exercises ..< length exercises + length new]"
    by (auto simp: initialState_def)
  have "map (\<lambda>ref. heap st ! ref) (newExercises st) = new"
    unfolding new by (rule map_nth_append_range)
  with res new show "take (length exercises) (heapAfter res) = exercises \<and>
      heapAfter res = exercises @ newExercisesOut res"
    by simp
next
  assume err: "parseWorkoutsCSV P csvContent exercises = Inl e"
  let ?cols = "workoutColumns (headerRow (headerLine csvContent))"
  show "e \<in> set [TooFewLines, WorkoutsMissingDate, WorkoutsMissingExerciseName, WorkoutsMissingReps,
                WorkoutsMissingSetNumber] \<or>
      (\<exists>ls1 l ls2 st1.
         dataLines csvContent = ls1 @ l # ls2 \<and>
         processRows P ?cols 1 ls1 (initialState exercises) = Inr st1 \<and>
         processRow P ?cols (1 + length ls1) l st1 = Inl e \<and>
         take (length exercises) (heap st1) = exercises)"
  proof (cases "e \<in> set [TooFewLines, WorkoutsMissingDate, WorkoutsMissingExerciseName,
      WorkoutsMissingReps, WorkoutsMissingSetNumber]")
    case True
    then show ?thesis by (rule disjI1)
  next
    case False
    with err obtain header row rows where
      lines: "split CHR 0x0A (trim csvContent) = header # row # rows"
      and run: "processRows P (workoutColumns (headerRow header)) 1 (row # rows)
                  (initialState exercises) = Inl e"
      by (auto simp: parseWorkoutsCSV_def Let_def split: list.splits if_splits sum.splits
          simp del: processRows.simps)
    from lines have h: "headerLine csvContent = header" "dataLines csvContent = row # rows"
      by (simp_all add: headerLine_def dataLines_def)
    from processRows_error [OF run] obtain ls1 l ls2 st1 where
      a: "row # rows = ls1 @ l # ls2"
         "processRows P (workoutColumns (headerRow header)) 1 ls1 (initialState exercises) = Inr st1"
         "processRow P (workoutColumns (headerRow header)) (1 + length ls1) l st1 = Inl e"
      by blast
    from processRows_extends [OF a(2)] have "take (length exercises) (heap st1) = exercises"
      by (auto simp: initialState_def)
    with a h show ?thesis by auto
  qed
qed

theorem catalog_unchanged_witness:
  "parseWorkoutsCSV samplePlatform
     (''date,exercise,set,reps'' @ [CHR 0x0A] @ ''2024-01-15,PLANK,1,30'' @ [CHR 0x0A]
        @ ''2024-01-15,Squats,1,12'')
     [\<lparr>ex_id = ''e1'', ex_name = ''Plank'', ex_category = Abs, ex_createdAt = 7\<rparr>] =
     Inr \<lparr>workouts =
            [\<lparr>w_id = ''id-1'', w_date = ''Mon Jan 15 2024'',
              w_sets = [\<lparr>ws_id = ''id-2'', ws_exerciseId = ''e1'', ws_reps = Finite 30, ws_notes = None\<rparr>,
                        \<lparr>ws_id = ''id-3'', ws_exerciseId = ''id-0'', ws_reps = Finite 12, ws_notes = None\<rparr>],
              w_notes = None\<rparr>],
          newExercisesOut =
            [\<lparr>ex_id = ''id-0'', ex_name = ''Squats'', ex_category = FullBody, ex_createdAt = 0\<rparr>],
          heapAfter =
            [\<lparr>ex_id = ''e1'', ex_name = ''Plank'', ex_category = Abs, ex_createdAt = 7\<rparr>,
             \<lparr>ex_id = ''id-0'', ex_name = ''Squats'', ex_category = FullBody, ex_createdAt = 0\<rparr>]\<rparr> \<and>
   take (length [\<lparr>ex_id = ''e1'', ex_name = ''Plank'', ex_category = Abs, ex_createdAt = 7\<rparr>])
     [\<lparr>ex_id = ''e1'', ex_name = ''Plank'', ex_category = Abs, ex_createdAt = 7\<rparr>,
      \<lparr>ex_id = ''id-0'', ex_name = ''Squats'', ex_category = FullBody, ex_createdAt = 0\<rparr>] =
     [\<lparr>ex_id = ''e1'', ex_name = ''Plank'', ex_category = Abs, ex_createdAt = 7\<rparr>] \<and>
   parseWorkoutsCSV samplePlatform
     (''date,exercise,set,reps'' @ [CHR 0x0A] @ ''2024-01-15,Squats,1,12'' @ [CHR 0x0A]
        @ ''2024-01-15,Plank,1,abc'')
     [\<lparr>ex_id = ''e1'', ex_name = ''Plank'', ex_category = Abs, ex_createdAt = 7\<rparr>] =
     Inl (InvalidReps ''abc'' 3) \<and>
   InvalidReps ''abc'' 3 \<notin> set [TooFewLines, WorkoutsMissingDate, WorkoutsMissingExerciseName,
     WorkoutsMissingReps, WorkoutsMissingSetNumber]"
proof -
  let ?csv = "''date,exercise,set,reps'' @ [CHR 0x0A] @ ''2024-01-15,PLANK,1,30'' @ [CHR 0x0A]
        @ ''2024-01-15,Squats,1,12''"
  let ?bad = "''date,exercise,set,reps'' @ [CHR 0x0A] @ ''2024-01-15,Squats,1,12'' @ [CHR 0x0A]
        @ ''2024-01-15,Plank,1,abc''"
  let ?cat = "[\<lparr>ex_id = ''e1'', ex_name = ''Plank'', ex_category = Abs, ex_createdAt = 7\<rparr>]"
  let ?res = "\<lparr>workouts =
            [\<lparr>w_id = ''id-1'', w_date = ''Mon Jan 15 2024'',
              w_sets = [\<lparr>ws_id = ''id-2'', ws_exerciseId = ''e1'', ws_reps = Finite 30, ws_notes = None\<rparr>,
                        \<lparr>ws_id = ''id-3'', ws_exerciseId = ''id-0'', ws_reps = Finite 12, ws_notes = None\<rparr>],
              w_notes = None\<rparr>],
          newExercisesOut =
            [\<lparr>ex_id = ''id-0'', ex_name = ''Squats'', ex_category = FullBody, ex_createdAt = 0\<rparr>],
          heapAfter =
            [\<lparr>ex_id = ''e1'', ex_name = ''Plank'', ex_category = Abs, ex_createdAt = 7\<rparr>,
             \<lparr>ex_id = ''id-0'', ex_name = ''Squats'', ex_category = FullBody, ex_createdAt = 0\<rparr>]\<rparr>"
  have run: "parseWorkoutsCSV samplePlatform ?csv ?cat = Inr ?res"
    by code_simp
  from catalog_unchanged [of samplePlatform ?csv ?cat ?res TooFewLines] run
  have "take (length ?cat) (heapAfter ?res) = ?cat"
    by blast
  then have 2: "take (length ?cat)
     [\<lparr>ex_id = ''e1'', ex_name = ''Plank'', ex_category = Abs, ex_createdAt = 7\<rparr>,
      \<lparr>ex_id = ''id-0'', ex_name = ''Squats'', ex_category = FullBody, ex_createdAt = 0\<rparr>] = ?cat"
    by (simp only: importResult.simps)
  have bad: "parseWorkoutsCSV samplePlatform ?bad ?cat = Inl (InvalidReps ''abc'' 3)"
    by code_simp
  have 4: "InvalidReps ''abc'' 3 \<notin> set [TooFewLines, WorkoutsMissingDate,
      WorkoutsMissingExerciseName, WorkoutsMissingReps, WorkoutsMissingSetNumber]"
    by simp
  from run 2 bad 4 show ?thesis by (intro conjI)
qed

section \<open>Counting the emitted sets\<close>

text \<open>Sizes of the values of an association list under \<open>update\<close> and \<open>map_entry\<close>.\<close>

lemma sum_update_new:
  fixes m :: "'v \<Rightarrow> nat"
  shows "map_of al k = None \<Longrightarrow>
     sum_list (map (\<lambda>p. m (snd p)) (AList.update k v al)) = sum_list (map (\<lambda>p. m (snd p)) al) + m v"
  by (induction al) (auto split: if_splits)

lemma sum_map_entry_Suc:
  fixes m :: "'v \<Rightarrow> nat"
  shows "map_of al k \<noteq> None \<Longrightarrow> (\<And>v. m (f v) = Suc (m v)) \<Longrightarrow>
     sum_list (map (\<lambda>p. m (snd p)) (AList.map_entry k f al)) = Suc (sum_list (map (\<lambda>p. m (snd p)) al))"
  by (induction al) (auto split: if_splits)

lemma sum_map_entry_same:
  fixes m :: "'v \<Rightarrow> nat"
  shows "(\<And>v. m (f v) = m v) \<Longrightarrow>
     sum_list (map (\<lambda>p. m (snd p)) (AList.map_entry k f al)) = sum_list (map (\<lambda>p. m (snd p)) al)"
  by (induction al) (auto split: if_splits)

lemma addToDay_count:
  "sum_list (map (\<lambda>p. length (d_sets (snd p))) (addToDay key s wn wm)) =
     Suc (sum_list (map (\<lambda>p. length (d_sets (snd p))) wm))"
proof -
  define wm1 where "wm1 = (if map_of wm key = None
     then AList.update key \<lparr>d_sets = [], d_notes = None\<rparr> wm else wm)"
  have d: "map_of wm1 key \<noteq> None"
    by (auto simp: wm1_def update_conv')
  have s1: "sum_list (map (\<lambda>p. length (d_sets (snd p))) wm1) =
      sum_list (map (\<lambda>p. length (d_sets (snd p))) wm)"
    by (simp add: wm1_def sum_update_new [where m = "\<lambda>d. length (d_sets d)"])
  have s2: "sum_list (map (\<lambda>p. length (d_sets (snd p)))
        (AList.map_entry key (\<lambda>d. d\<lparr>d_sets := d_sets d @ [s]\<rparr>) wm1)) =
      Suc (sum_list (map (\<lambda>p. length (d_sets (snd p))) wm1))"
    by (rule sum_map_entry_Suc [where m = "\<lambda>d. length (d_sets d)", OF d]) simp
  show ?thesis
    unfolding addToDay_def Let_def wm1_def [symmetric]
    by (subst sum_map_entry_same [where m = "\<lambda>d. length (d_sets d)"]) (simp_all add: s1 s2)
qed

lemma addToGroup_count:
  "sum_list (map (\<lambda>p. length (snd p)) (addToGroup groups s)) =
     Suc (sum_list (map (\<lambda>p. length (snd p)) groups))"
proof -
  define g1 where "g1 = (if map_of groups (exerciseName s) = None
     then AList.update (exerciseName s) [] groups else groups)"
  have d: "map_of g1 (exerciseName s) \<noteq> None"
    by (auto simp: g1_def update_conv')
  have s1: "sum_list (map (\<lambda>p. length (snd p)) g1) = sum_list (map (\<lambda>p. length (snd p)) groups)"
    by (simp add: g1_def sum_update_new [where m = length])
  show ?thesis
    unfolding addToGroup_def Let_def g1_def [symmetric]
    by (subst sum_map_entry_Suc [where m = length, OF d]) (simp_all add: s1)
qed

lemma foldl_addToGroup_count:
  "sum_list (map (\<lambda>p. length (snd p)) (foldl addToGroup groups sets)) =
     sum_list (map (\<lambda>p. length (snd p)) groups) + length sets"
  by (induction sets arbitrary: groups) (simp_all add: addToGroup_count)

lemma length_concat_sorted:
  "length (concat (map (\<lambda>(name, exerciseSets). sort_key f exerciseSets) groups)) =
     sum_list (map (\<lambda>p. length (snd p)) groups)"
  by (induction groups) (auto simp: case_prod_beta)

lemma length_orderedSets: "length (orderedSets sets) = length sets"
  using foldl_addToGroup_count [of "[]" sets]
  by (simp add: orderedSets_def exerciseGroups_def length_concat_sorted)

lemma countSets_toWorkouts:
  "countSets (toWorkouts P k wm) = sum_list (map (\<lambda>p. length (d_sets (snd p))) wm)"
  by (induction wm arbitrary: k) (simp_all add: countSets_def toWorkout_def Let_def length_orderedSets)

lemma processRow_count:
  assumes "processRow P cols i l st = Inr st'"
  shows "sum_list (map (\<lambda>p. length (d_sets (snd p))) (workoutMap st')) =
           sum_list (map (\<lambda>p. length (d_sets (snd p))) (workoutMap st))
             + (if completeRow cols l \<and> acceptedRow P cols l then 1 else 0)"
proof (cases "completeRow cols l")
  case False
  with assms have "st' = st" by (simp add: processRow_incomplete)
  with False show ?thesis by simp
next
  case True
  obtain ref st1 where f: "findOrCreateExercise P cols (parseCSVLine (trim l))
      (strOf (cell (parseCSVLine (trim l)) (exerciseNameIndex cols))) st = (ref, st1)"
    by (cases "findOrCreateExercise P cols (parseCSVLine (trim l))
      (strOf (cell (parseCSVLine (trim l)) (exerciseNameIndex cols))) st")
  have w: "workoutMap st1 = workoutMap st"
    using f by (auto simp: findOrCreateExercise_def Let_def split: option.splits)
  have v: "acceptedRow P cols l"
  proof (rule ccontr)
    assume n: "\<not> acceptedRow P cols l"
    show False
    proof (cases "dateKey P (strOf (cell (parseCSVLine (trim l)) (dateIndex cols)))")
      case None
      from processRow_invalid_date [OF True None, of i st] assms show False by simp
    next
      case (Some key)
      show False
      proof (cases "repsRefused (strOf (cell (parseCSVLine (trim l)) (repsIndex cols)))")
        case True
        from processRow_reps_refused [OF \<open>completeRow cols l\<close> Some True, of i st] assms
        show False by simp
      next
        case False
        with n Some have "setNumberRefused (strOf (cell (parseCSVLine (trim l)) (setNumberIndex cols)))"
          by (simp add: acceptedRow_def Let_def)
        from processRow_setNumber_refused [OF \<open>completeRow cols l\<close> Some False this, of i st] assms
        show False by simp
      qed
    qed
  qed
  from assms obtain key s wn where "workoutMap st' = addToDay key s wn (workoutMap st1)"
    unfolding processRow_complete [OF True] Let_def f
    by (auto split: option.splits sum.splits)
  with w True v show ?thesis by (simp add: addToDay_count)
qed

lemma processRows_count:
  assumes "processRows P cols i ls st = Inr st'"
  shows "sum_list (map (\<lambda>p. length (d_sets (snd p))) (workoutMap st')) =
           sum_list (map (\<lambda>p. length (d_sets (snd p))) (workoutMap st))
             + length (filter (\<lambda>l. completeRow cols l \<and> acceptedRow P cols l) ls)"
  using assms
proof (induction ls arbitrary: i st)
  case Nil
  then show ?case by simp
next
  case (Cons l ls)
  from Cons.prems obtain st1 where
    1: "processRow P cols i l st = Inr st1" and 2: "processRows P cols (Suc i) ls st1 = Inr st'"
    by (auto split: sum.splits)
  from processRow_count [OF 1] Cons.IH [OF 2] show ?case by simp
qed

text \<open>
  Claim C2, as the code has it.  When the workout importer accepts a file, the number of
  \<open>WorkoutSet\<close> records in all returned workouts is the number of data lines that are
  complete (not blank, with a date, an exercise name, reps and a set number) and that
  the importer accepts: the date is a valid date, \<open>parseInt\<close> of the reps is a number that
  is not negative and \<open>parseInt\<close> of the set number is a number that is at least 1.
\<close>

theorem emitted_sets_count:
  assumes "parseWorkoutsCSV P csvContent exercises = Inr res"
  shows "countSets (workouts res) =
     length (filter (\<lambda>l. completeRow (workoutColumns (headerRow (headerLine csvContent))) l \<and>
                          acceptedRow P (workoutColumns (headerRow (headerLine csvContent))) l)
               (dataLines csvContent))"
proof -
  from assms obtain header row rows st where
    lines: "split CHR 0x0A (trim csvContent) = header # row # rows"
    and run: "processRows P (workoutColumns (headerRow header)) 1 (row # rows) (initialState exercises)
            = Inr st"
    and res: "res = \<lparr>workouts = toWorkouts P (uuidCount st) (workoutMap st),
                     newExercisesOut = map (\<lambda>ref. heap st ! ref) (newExercises st),
                     heapAfter = heap st\<rparr>"
    by (auto simp: parseWorkoutsCSV_def Let_def split: list.splits if_splits sum.splits
        simp del: processRows.simps)
  from lines have h: "headerLine csvContent = header" "dataLines csvContent = row # rows"
    by (simp_all add: headerLine_def dataLines_def)
  from processRows_count [OF run] res show ?thesis
    unfolding h by (simp add: countSets_toWorkouts initialState_def del: processRows.simps)
qed

theorem emitted_sets_count_witness:
  "countSets (workouts (projr (parseWorkoutsCSV samplePlatform generateWorkoutCSVTemplate []))) = 7 \<and>
   length (filter (\<lambda>l. completeRow (workoutColumns (headerRow (headerLine generateWorkoutCSVTemplate))) l \<and>
                        acceptedRow samplePlatform
                          (workoutColumns (headerRow (headerLine generateWorkoutCSVTemplate))) l)
             (dataLines generateWorkoutCSVTemplate)) = 7"
proof -
  have "\<not> isl (parseWorkoutsCSV samplePlatform generateWorkoutCSVTemplate [])"
    by code_simp
  then have run: "parseWorkoutsCSV samplePlatform generateWorkoutCSVTemplate [] =
      Inr (projr (parseWorkoutsCSV samplePlatform generateWorkoutCSVTemplate []))"
    by (cases "parseWorkoutsCSV samplePlatform generateWorkoutCSVTemplate []") simp_all
  have n: "countSets (workouts (projr (parseWorkoutsCSV samplePlatform generateWorkoutCSVTemplate [])))
      = 7"
    by code_simp
  from emitted_sets_count [OF run] n show ?thesis
    by simp
qed

text \<open>
  Claim C2 as stated fails.  A row with the reps \<open>12abc\<close> is imported, as one set of 12
  reps, although its reps are not a valid integer: the file has no row with valid
  integer reps and set number, and one set is emitted.
\<close>

theorem set_emitted_for_non_integer_reps:
  "\<not> isl (parseWorkoutsCSV samplePlatform
           (''date,exercise,set,reps'' @ [CHR 0x0A] @ ''2024-01-15,Squats,1,12abc'') []) \<and>
   countSets (workouts (projr (parseWorkoutsCSV samplePlatform
     (''date,exercise,set,reps'' @ [CHR 0x0A] @ ''2024-01-15,Squats,1,12abc'') []))) = 1 \<and>
   dataLines (''date,exercise,set,reps'' @ [CHR 0x0A] @ ''2024-01-15,Squats,1,12abc'') =
     [''2024-01-15,Squats,1,12abc''] \<and>
   integerString ''12abc'' = None \<and>
   length (filter
     (\<lambda>l. completeRow (workoutColumns (headerRow ''date,exercise,set,reps'')) l \<and>
          validRow samplePlatform (workoutColumns (headerRow ''date,exercise,set,reps'')) l)
     [''2024-01-15,Squats,1,12abc'']) = 0"
  by code_simp

section \<open>Order of the sets of a workout\<close>

text \<open>
  What the grouping does achieve: the sets of a day are arranged by the name as written.
  The names come in the order of their first row, and under each name its sets come
  sorted by set number, sets of equal number in the order of their rows.
\<close>

lemma map_entry_keyed:
  assumes "distinct ns" "n \<in> set ns"
  shows "AList.map_entry n f (map (\<lambda>k. (k, g k)) ns) =
         map (\<lambda>k. (k, if k = n then f (g k) else g k)) ns"
  using assms by (induction ns) auto

lemma update_keyed_new:
  assumes "n \<notin> set ns"
  shows "AList.update n v (map (\<lambda>k. (k, g k)) ns) = map (\<lambda>k. (k, g k)) ns @ [(n, v)]"
  using assms by (induction ns) auto

lemma map_entry_keyed_last:
  assumes "n \<notin> set ns"
  shows "AList.map_entry n f (map (\<lambda>k. (k, g k)) ns @ [(n, v)]) =
         map (\<lambda>k. (k, g k)) ns @ [(n, f v)]"
  using assms by (induction ns) auto

lemma map_of_keyed: "map_of (map (\<lambda>k. (k, g k)) ns) n = None \<longleftrightarrow> n \<notin> set ns"
  by (induction ns) auto

lemma exerciseGroups_by_name:
  "exerciseGroups sets =
     map (\<lambda>n. (n, filter (\<lambda>s. exerciseName s = n) sets))
         (rev (remdups (rev (map exerciseName sets))))"
proof (induction sets rule: rev_induct)
  case Nil
  then show ?case by (simp add: exerciseGroups_def)
next
  case (snoc x xs)
  let ?ns = "rev (remdups (rev (map exerciseName xs)))"
  let ?g = "\<lambda>n. filter (\<lambda>s. exerciseName s = n) xs"
  have d: "distinct ?ns" by simp
  have s: "set ?ns = exerciseName ` set xs" by simp
  have step: "exerciseGroups (xs @ [x]) = addToGroup (map (\<lambda>n. (n, ?g n)) ?ns) x"
    using snoc.IH by (simp add: exerciseGroups_def)
  show ?case
  proof (cases "exerciseName x \<in> exerciseName ` set xs")
    case True
    then have "exerciseName x \<in> set ?ns" using s by simp
    then have "addToGroup (map (\<lambda>n. (n, ?g n)) ?ns) x =
        map (\<lambda>k. (k, if k = exerciseName x then ?g k @ [x] else ?g k)) ?ns"
      using d by (simp add: addToGroup_def map_of_keyed map_entry_keyed)
    also have "\<dots> = map (\<lambda>n. (n, filter (\<lambda>s. exerciseName s = n) (xs @ [x]))) ?ns"
      by (rule map_cong) auto
    finally show ?thesis using True step by simp
  next
    case False
    then have n: "exerciseName x \<notin> set ?ns" using s by simp
    have "addToGroup (map (\<lambda>n. (n, ?g n)) ?ns) x =
        AList.map_entry (exerciseName x) (\<lambda>g. g @ [x]) (map (\<lambda>n. (n, ?g n)) ?ns @ [(exerciseName x, [])])"
      using n by (simp add: addToGroup_def map_of_keyed update_keyed_new)
    also have "\<dots> = map (\<lambda>n. (n, ?g n)) ?ns @ [(exerciseName x, [x])]"
      using n by (simp add: map_entry_keyed_last)
    also have "\<dots> = map (\<lambda>n. (n, filter (\<lambda>s. exerciseName s = n) (xs @ [x]))) (?ns @ [exerciseName x])"
      using False n by (auto simp: filter_empty_conv image_iff)
    finally show ?thesis using False step by simp
  qed
qed

lemma orderedSets_by_name:
  "orderedSets sets =
     concat (map (\<lambda>n. sort_key setNumber (filter (\<lambda>s. exerciseName s = n) sets))
                 (rev (remdups (rev (map exerciseName sets)))))"
  by (simp add: orderedSets_def exerciseGroups_by_name comp_def)

text \<open>
  Claim C1, at an input where exercise names differ in letter case only.  The rows
  \<open>Push-ups\<close> (set 2, 10 reps) and \<open>push-ups\<close> (set 1, 12 reps) of one day resolve to the
  same exercise \<open>id-0\<close>, the lookup being case-insensitive, but \<open>exerciseGroups\<close> is keyed by
  the name as written.  The returned workout has the two sets of that exercise apart,
  with the set of \<open>Squats\<close> between them, and set number 2 before set number 1.
\<close>

theorem case_variant_names_split_groups:
  "parseWorkoutsCSV samplePlatform
     (''date,exercise,set,reps'' @ [CHR 0x0A] @ ''2024-01-15,Push-ups,2,10'' @ [CHR 0x0A]
        @ ''2024-01-15,Squats,1,20'' @ [CHR 0x0A] @ ''2024-01-15,push-ups,1,12'') [] =
     Inr \<lparr>workouts =
            [\<lparr>w_id = ''id-2'', w_date = ''Mon Jan 15 2024'',
              w_sets = [\<lparr>ws_id = ''id-3'', ws_exerciseId = ''id-0'', ws_reps = Finite 10, ws_notes = None\<rparr>,
                        \<lparr>ws_id = ''id-4'', ws_exerciseId = ''id-1'', ws_reps = Finite 20, ws_notes = None\<rparr>,
                        \<lparr>ws_id = ''id-5'', ws_exerciseId = ''id-0'', ws_reps = Finite 12, ws_notes = None\<rparr>],
              w_notes = None\<rparr>],
          newExercisesOut =
            [\<lparr>ex_id = ''id-0'', ex_name = ''Push-ups'', ex_category = FullBody, ex_createdAt = 0\<rparr>,
             \<lparr>ex_id = ''id-1'', ex_name = ''Squats'', ex_category = FullBody, ex_createdAt = 0\<rparr>],
          heapAfter =
            [\<lparr>ex_id = ''id-0'', ex_name = ''Push-ups'', ex_category = FullBody, ex_createdAt = 0\<rparr>,
             \<lparr>ex_id = ''id-1'', ex_name = ''Squats'', ex_category = FullBody, ex_createdAt = 0\<rparr>]\<rparr>"
  by code_simp

end
